theory Spec2Isabelle
  imports Complex_Main
begin

section \<open>Python values of the configuration\<close>

text \<open>
  The constructor of \<^verbatim>\<open>MidasNet\<close> (src/dpt/midas_net.py) reads its options from keyword
  arguments and from the dictionary \<^verbatim>\<open>blocks\<close>. The values it meets are \<^verbatim>\<open>None\<close>, booleans,
  numbers, strings and lists (the hook indices). Floating point numbers are read as reals:
  the constructor only stores and compares them.
\<close>

datatype pyval =
    PyNone
  | PyBool bool
  | PyInt int
  | PyFloat real
  | PyStr string
  | PyList "pyval list"

text \<open>Python's \<^verbatim>\<open>==\<close>: \<^verbatim>\<open>True == 1 == 1.0\<close>, lists compare element by element.\<close>

fun py_num :: "pyval \<Rightarrow> real option" where
  "py_num (PyBool b) = Some (if b then 1 else 0)"
| "py_num (PyInt i) = Some (of_int i)"
| "py_num (PyFloat r) = Some r"
| "py_num PyNone = None"
| "py_num (PyStr s) = None"
| "py_num (PyList xs) = None"

fun py_eq :: "pyval \<Rightarrow> pyval \<Rightarrow> bool"
  and py_eq_list :: "pyval list \<Rightarrow> pyval list \<Rightarrow> bool" where
  "py_eq PyNone b = (b = PyNone)"
| "py_eq (PyStr s) b = (b = PyStr s)"
| "py_eq (PyList xs) b = (case b of PyList ys \<Rightarrow> py_eq_list xs ys | _ \<Rightarrow> False)"
| "py_eq (PyBool x) b = (py_num b = Some (if x then 1 else 0))"
| "py_eq (PyInt i) b = (py_num b = Some (of_int i))"
| "py_eq (PyFloat r) b = (py_num b = Some r)"
| "py_eq_list [] ys = (ys = [])"
| "py_eq_list (x # xs) ys = (case ys of [] \<Rightarrow> False | y # ys' \<Rightarrow> py_eq x y \<and> py_eq_list xs ys')"

text \<open>Python's truth value of an object, as \<^verbatim>\<open>if path:\<close> and \<^verbatim>\<open>if non_negative\<close> use it.\<close>

fun py_truthy :: "pyval \<Rightarrow> bool" where
  "py_truthy PyNone = False"
| "py_truthy (PyBool b) = b"
| "py_truthy (PyInt i) = (i \<noteq> 0)"
| "py_truthy (PyFloat r) = (r \<noteq> 0)"
| "py_truthy (PyStr s) = (s \<noteq> [])"
| "py_truthy (PyList xs) = (xs \<noteq> [])"

section \<open>Errors\<close>

text \<open>
  The exceptions the two methods can end with. \<open>PrimitiveError\<close> is any exception raised
  inside a collaborator (the numerical library, blocks.py, base_model.py), with its message.
\<close>

datatype error =
    NameError string
  | UnboundLocalError string
  | KeyError string
  | AttributeError string
  | PrimitiveError string

section \<open>Submodules\<close>

text \<open>
  The layers the constructor builds are kept as descriptions: the class and the arguments
  it is called with. Arguments the call leaves out take the library's defaults
  (\<^verbatim>\<open>Conv2d\<close>: stride 1, padding 0, groups 1, bias; \<^verbatim>\<open>Interpolate\<close> of blocks.py: whatever
  its own default for \<^verbatim>\<open>align_corners\<close> is, written \<open>None\<close> here).

  Building a description never fails: the constructors of the library's layers and of
  \<^verbatim>\<open>FeatureFusionBlock_custom\<close> are taken to accept the arguments they are given. Where the
  library rejects an argument (a channel count such as \<^verbatim>\<open>features = -2\<close>, for which
  \<^verbatim>\<open>nn.Conv2d\<close> raises at line 149, or a \<^verbatim>\<open>num_classes\<close> beyond the range of a machine integer,
  for which it raises at line 172), the code ends inside that constructor while
  \<open>MidasNet_init\<close> below goes on with the description. What is shown of the constructor
  is therefore shown for arguments the layer constructors accept.
\<close>

datatype layer =
    Conv2d (in_channels: int) (out_channels: int) (kernel_size: int) (stride: int)
      (padding: int) (conv_groups: int) (bias: bool)
  | BatchNorm2d int
  | ReLU bool
  | LeakyReLU real
  | Identity
  | Dropout real bool
  | Interpolate (scale_factor: int) (mode: string) (interp_align_corners: "pyval option")

text \<open>\<^verbatim>\<open>FeatureFusionBlock_custom(features, activation, deconv=, bn=, expand=, align_corners=)\<close>;
  \<open>fb_expand = None\<close> when the call does not pass \<^verbatim>\<open>expand\<close> (refinenet1).\<close>

record fusion_block =
  fb_features :: int
  fb_activation :: layer
  fb_deconv :: bool
  fb_bn :: bool
  fb_expand :: "bool option"
  fb_align_corners :: pyval

text \<open>
  The backbone object \<^verbatim>\<open>self.pretrained\<close>. The forward pass asks \<^verbatim>\<open>hasattr(pretrained, "model")\<close>
  and \<^verbatim>\<open>hasattr(pretrained.model, "patch_size")\<close>, and reads the attributes
  \<^verbatim>\<open>layer1 .. layer4\<close>; an attribute that is absent is \<open>None\<close>. \<open>modules\<close> is what
  \<^verbatim>\<open>pretrained.modules()\<close> iterates over, with the state the constructor's freezing loop
  touches. \<open>'b\<close> is the type of the opaque modules made by \<^verbatim>\<open>_make_encoder\<close>.
\<close>

record vit_model =
  patch_size :: "pyval option"

datatype module_kind = BatchNorm2d_module | LayerNorm_module | Other_module

record submodule =
  kind :: module_kind
  training :: bool
  weight_requires_grad :: "bool option"
  bias_requires_grad :: "bool option"

record 'b pretrained =
  model :: "vit_model option"
  layer1 :: "'b option"
  layer2 :: "'b option"
  layer3 :: "'b option"
  layer4 :: "'b option"
  modules :: "submodule list"

text \<open>\<^verbatim>\<open>self.scratch\<close> as \<^verbatim>\<open>_make_encoder\<close> returns it: the four channel projections.\<close>

record 'b scratch_base =
  base_layer1_rn :: 'b
  base_layer2_rn :: 'b
  base_layer3_rn :: 'b
  base_layer4_rn :: 'b

text \<open>\<^verbatim>\<open>self.scratch\<close> after the constructor has added its own attributes.\<close>

record 'b scratch =
  layer1_rn :: 'b
  layer2_rn :: 'b
  layer3_rn :: 'b
  layer4_rn :: 'b
  activation :: layer
  refinenet4 :: fusion_block
  refinenet3 :: fusion_block
  refinenet2 :: fusion_block
  refinenet1 :: fusion_block
  output_conv :: "layer list"

text \<open>
  The constructed object. \<open>auxlayer = None\<close> when the attribute does not exist
  (\<^verbatim>\<open>hasattr(self, "auxlayer")\<close> is false). \<open>weights\<close> are the parameter values of all
  submodules, of an abstract type \<open>'w\<close>: \<^verbatim>\<open>self.load(path)\<close> replaces them.
\<close>

record ('w, 'b) midas_net =
  channels_last :: pyval
  blocks :: "string \<rightharpoonup> pyval"
  backbone :: pyval
  monodepth :: pyval
  num_classes :: int
  dropout_rate :: real
  groups :: int
  expand :: bool
  bn :: bool
  hooks :: pyval
  use_readout :: pyval
  scale :: pyval
  shift :: pyval
  pretrained :: "'b pretrained"
  scratch :: "'b scratch"
  auxlayer :: "layer list option"
  freeze_bn :: bool
  weights :: 'w

section \<open>The collaborators\<close>

text \<open>
  A submodule that the forward pass calls: an opaque module of the backbone (together with
  the backbone object whose state it shares), an opaque projection, an \<^verbatim>\<open>nn.Sequential\<close>
  of layers, or a fusion block.
\<close>

datatype 'b nn_module =
    Pretrained_layer "'b pretrained" 'b
  | Scratch_layer 'b
  | Sequential "layer list"
  | FeatureFusionBlock_custom fusion_block

text \<open>
  Everything the file imports and does not define, as parameters: \<^verbatim>\<open>_make_encoder\<close> and
  \<^verbatim>\<open>forward_vit\<close> of blocks.py, \<^verbatim>\<open>BaseModel.load\<close>, calling a submodule (by its attribute
  path, on the current weights), and the tensor operations of the numerical library.
  Each returns \<open>Inl message\<close> when it raises. \<open>'t\<close> is the type of tensors.
\<close>

record ('t, 'w, 'b) prims =
  make_encoder :: "pyval \<Rightarrow> int \<Rightarrow> bool \<Rightarrow> int \<Rightarrow> bool \<Rightarrow> pyval \<Rightarrow> pyval \<Rightarrow> pyval
                     \<Rightarrow> string + ('b pretrained \<times> 'b scratch_base)"
  load :: "pyval \<Rightarrow> 'w \<Rightarrow> string + 'w"
  contiguous :: "'t \<Rightarrow> string + 't"
  forward_vit :: "'w \<Rightarrow> 'b pretrained \<Rightarrow> 't \<Rightarrow> string + ('t \<times> 't \<times> 't \<times> 't)"
  call :: "'w \<Rightarrow> string \<Rightarrow> 'b nn_module \<Rightarrow> 't list \<Rightarrow> string + 't"
  tensor_mul :: "'t \<Rightarrow> pyval \<Rightarrow> string + 't"
  tensor_add :: "'t \<Rightarrow> pyval \<Rightarrow> string + 't"
  tensor_shape :: "'t \<Rightarrow> nat list"
  interpolate :: "'t \<Rightarrow> nat list \<Rightarrow> string \<Rightarrow> bool \<Rightarrow> string + 't"
  squeeze :: "'t \<Rightarrow> int \<Rightarrow> string + 't"

section \<open>The constructor\<close>

text \<open>The keyword arguments of \<^verbatim>\<open>MidasNet.__init__\<close> (lines 23-46).\<close>

record midas_args =
  arg_path :: pyval
  arg_features :: int
  arg_backbone :: pyval
  arg_monodepth :: pyval
  arg_num_classes :: int
  arg_non_negative :: pyval
  arg_exportable :: pyval
  arg_channels_last :: pyval
  arg_align_corners :: pyval
  arg_blocks :: "string \<rightharpoonup> pyval"

text \<open>The defaults of the signature.\<close>

definition default_blocks :: "string \<rightharpoonup> pyval" where
  "default_blocks =
     [''activation'' \<mapsto> PyStr ''relu'',
      ''batch_norm'' \<mapsto> PyBool False,
      ''freeze_bn'' \<mapsto> PyBool True,
      ''expand'' \<mapsto> PyBool False,
      ''hooks'' \<mapsto> PyList [PyInt 0, PyInt 1, PyInt 8, PyInt 11],
      ''use_readout'' \<mapsto> PyStr ''project'',
      ''aux'' \<mapsto> PyNone,
      ''widehead'' \<mapsto> PyBool False,
      ''scale'' \<mapsto> PyFloat 1,
      ''shift'' \<mapsto> PyFloat 0]"

definition default_args :: midas_args where
  "default_args =
     \<lparr>arg_path = PyNone, arg_features = 256, arg_backbone = PyStr ''vitb_rn50_384'',
      arg_monodepth = PyBool True, arg_num_classes = 150, arg_non_negative = PyBool True,
      arg_exportable = PyBool False, arg_channels_last = PyBool False,
      arg_align_corners = PyBool True, arg_blocks = default_blocks\<rparr>"

text \<open>Lines 70-88: an option of \<^verbatim>\<open>blocks\<close> that is read with a presence check.\<close>

definition blocks_get :: "(string \<rightharpoonup> pyval) \<Rightarrow> string \<Rightarrow> pyval \<Rightarrow> pyval" where
  "blocks_get b k d = (case b k of Some v \<Rightarrow> v | None \<Rightarrow> d)"

text \<open>A subscript \<^verbatim>\<open>blocks[k]\<close>: an absent key raises \<^verbatim>\<open>KeyError\<close>.\<close>

definition blocks_item :: "(string \<rightharpoonup> pyval) \<Rightarrow> string \<Rightarrow> error + pyval" where
  "blocks_item b k = (case b k of Some v \<Rightarrow> Inr v | None \<Rightarrow> Inl (KeyError k))"

text \<open>Lines 58-99: the call of \<^verbatim>\<open>_make_encoder\<close> with \<^verbatim>\<open>groups = 1\<close>, \<^verbatim>\<open>expand = False\<close>.\<close>

definition encoder_call ::
  "('t, 'w, 'b) prims \<Rightarrow> midas_args \<Rightarrow> string + ('b pretrained \<times> 'b scratch_base)" where
  "encoder_call T a =
     make_encoder T (arg_backbone a) (arg_features a) (\<not> py_truthy (arg_path a)) 1 False
       (arg_exportable a)
       (blocks_get (arg_blocks a) ''hooks'' PyNone)
       (blocks_get (arg_blocks a) ''use_readout'' (PyStr ''ignore''))"

text \<open>Lines 104-113. \<^verbatim>\<open>Mish\<close> and \<^verbatim>\<open>HardMish\<close> are names the module never defines.\<close>

definition select_activation :: "(string \<rightharpoonup> pyval) \<Rightarrow> error + layer" where
  "select_activation b =
     (case blocks_item b ''activation'' of
        Inl e \<Rightarrow> Inl e
      | Inr v \<Rightarrow>
          if py_eq v (PyStr ''mish'') then Inl (NameError ''Mish'')
          else if py_eq v (PyStr ''hard_mish'') then Inl (NameError ''HardMish'')
          else if py_eq v (PyStr ''leaky'') then Inr (LeakyReLU (1 / 10))
          else if py_eq v (PyStr ''relu'') then Inr (ReLU False)
          else Inr Identity)"

text \<open>Lines 115-145.\<close>

definition make_refinenet :: "midas_args \<Rightarrow> layer \<Rightarrow> bool \<Rightarrow> bool option \<Rightarrow> fusion_block" where
  "make_refinenet a act use_bn ex =
     \<lparr>fb_features = arg_features a, fb_activation = act, fb_deconv = False, fb_bn = use_bn,
      fb_expand = ex, fb_align_corners = arg_align_corners a\<rparr>"

text \<open>Lines 147-208: the output head. \<^verbatim>\<open>self.blocks["widehead"]\<close> and
  \<^verbatim>\<open>self.blocks["widehead_hr"]\<close> are subscripts.\<close>

definition make_output_conv ::
  "midas_args \<Rightarrow> (string \<rightharpoonup> pyval) \<Rightarrow> layer \<Rightarrow> error + layer list" where
  "make_output_conv a b act =
     (let f = arg_features a in
      if py_eq (arg_monodepth a) (PyBool True) then
        Inr [Conv2d f (f div 2) 3 1 1 1 True,
             Interpolate 2 ''bilinear'' None,
             Conv2d (f div 2) 32 3 1 1 1 True,
             act,
             Conv2d 32 1 1 1 0 1 True,
             (if py_truthy (arg_non_negative a) then ReLU True else Identity),
             Identity]
      else
        (case blocks_item b ''widehead'' of
           Inl e \<Rightarrow> Inl e
         | Inr wh \<Rightarrow>
             if py_eq wh (PyBool True) then
               Inr [Conv2d f f 3 1 1 1 False,
                    BatchNorm2d f,
                    ReLU True,
                    Dropout (1 / 10) False,
                    Conv2d f (arg_num_classes a) 1 1 0 1 True,
                    Interpolate 2 ''bilinear'' (Some (arg_align_corners a))]
             else
               (case blocks_item b ''widehead_hr'' of
                  Inl e \<Rightarrow> Inl e
                | Inr hr \<Rightarrow>
                    if py_eq hr (PyBool True) then
                      Inr [Conv2d f f 3 1 1 1 True,
                           Interpolate 2 ''bilinear'' (Some (arg_align_corners a)),
                           Dropout (1 / 10) False,
                           Conv2d f (arg_num_classes a) 1 1 0 1 True]
                    else
                      Inr [Conv2d f (f div 2) 3 1 1 1 True,
                           Interpolate 2 ''bilinear'' (Some (arg_align_corners a)),
                           Dropout 0 False,
                           Conv2d (f div 2) (arg_num_classes a) 1 1 0 1 True])))"

text \<open>Lines 210-217: the auxiliary head. Its layers are built from \<^verbatim>\<open>features2\<close>, a name
  that is bound nowhere, so evaluating the first argument raises.\<close>

definition make_auxlayer :: "(string \<rightharpoonup> pyval) \<Rightarrow> error + layer list option" where
  "make_auxlayer b =
     (case b ''aux'' of
        None \<Rightarrow> Inr None
      | Some v \<Rightarrow> if py_eq v (PyBool True) then Inl (NameError ''features2'') else Inr None)"

text \<open>Lines 226-232: the loop over \<^verbatim>\<open>self.pretrained.modules()\<close>. Assigning
  \<^verbatim>\<open>requires_grad\<close> on a weight or bias that is \<^verbatim>\<open>None\<close> raises \<^verbatim>\<open>AttributeError\<close>.\<close>

fun freeze_modules :: "submodule list \<Rightarrow> error + submodule list" where
  "freeze_modules [] = Inr []"
| "freeze_modules (m # ms) =
     (if kind m = BatchNorm2d_module \<or> kind m = LayerNorm_module then
        (case weight_requires_grad m of
           None \<Rightarrow> Inl (AttributeError ''requires_grad'')
         | Some _ \<Rightarrow>
             (case bias_requires_grad m of
                None \<Rightarrow> Inl (AttributeError ''requires_grad'')
              | Some _ \<Rightarrow>
                  (case freeze_modules ms of
                     Inl e \<Rightarrow> Inl e
                   | Inr ms' \<Rightarrow>
                       Inr (m\<lparr>training := False, weight_requires_grad := Some False,
                              bias_requires_grad := Some False\<rparr> # ms'))))
      else
        (case freeze_modules ms of
           Inl e \<Rightarrow> Inl e
         | Inr ms' \<Rightarrow> Inr (m # ms')))"

text \<open>Lines 70-72.\<close>

definition use_batch_norm :: "(string \<rightharpoonup> pyval) \<Rightarrow> bool" where
  "use_batch_norm b = (case b ''batch_norm'' of Some v \<Rightarrow> py_eq v (PyBool True) | None \<Rightarrow> False)"

text \<open>Lines 101-102: when \<^verbatim>\<open>"activation"\<close> is absent the constructor stores \<^verbatim>\<open>None\<close> under
  it in \<^verbatim>\<open>blocks\<close>, which is the same object as \<^verbatim>\<open>self.blocks\<close>.\<close>

definition stored_blocks :: "midas_args \<Rightarrow> (string \<rightharpoonup> pyval)" where
  "stored_blocks a =
     (case arg_blocks a ''activation'' of
        None \<Rightarrow> (arg_blocks a)(''activation'' \<mapsto> PyNone)
      | Some _ \<Rightarrow> arg_blocks a)"

text \<open>Lines 115-145 and the attributes \<^verbatim>\<open>_make_encoder\<close> has put on \<^verbatim>\<open>self.scratch\<close>.\<close>

definition make_scratch ::
  "midas_args \<Rightarrow> 'b scratch_base \<Rightarrow> layer \<Rightarrow> bool \<Rightarrow> layer list \<Rightarrow> 'b scratch" where
  "make_scratch a sb act use_bn head =
     \<lparr>layer1_rn = base_layer1_rn sb,
      layer2_rn = base_layer2_rn sb,
      layer3_rn = base_layer3_rn sb,
      layer4_rn = base_layer4_rn sb,
      activation = act,
      refinenet4 = make_refinenet a act use_bn (Some False),
      refinenet3 = make_refinenet a act use_bn (Some False),
      refinenet2 = make_refinenet a act use_bn (Some False),
      refinenet1 = make_refinenet a act use_bn None,
      output_conv = head\<rparr>"

text \<open>Lines 219-220: \<^verbatim>\<open>self.load(path)\<close> when a path is given.\<close>

definition load_weights :: "('t, 'w, 'b) prims \<Rightarrow> midas_args \<Rightarrow> 'w \<Rightarrow> string + 'w" where
  "load_weights T a w0 = (if py_truthy (arg_path a) then load T (arg_path a) w0 else Inr w0)"

text \<open>Lines 222-232.\<close>

definition freeze_flag :: "(string \<rightharpoonup> pyval) \<Rightarrow> bool" where
  "freeze_flag b = (\<not> (case b ''freeze_bn'' of Some v \<Rightarrow> py_eq v (PyBool False) | None \<Rightarrow> False))"

definition freeze_pretrained :: "(string \<rightharpoonup> pyval) \<Rightarrow> submodule list \<Rightarrow> error + submodule list" where
  "freeze_pretrained b ms = (if freeze_flag b then freeze_modules ms else Inr ms)"

text \<open>
  \<^verbatim>\<open>MidasNet.__init__\<close> (lines 54-232). \<open>w0\<close> stands for the parameter values the
  submodules are created with. The \<^verbatim>\<open>print\<close> calls are left out. The exceptions of the
  constructor that are modelled are those of \<^verbatim>\<open>_make_encoder\<close> and \<^verbatim>\<open>load\<close>, of the unbound
  names, of the subscripts of \<^verbatim>\<open>self.blocks\<close> and of the loop over the modules of the
  backbone; the layer and fusion-block constructors are taken to return (see the section on
  submodules).
\<close>

definition MidasNet_init ::
  "('t, 'w, 'b) prims \<Rightarrow> 'w \<Rightarrow> midas_args \<Rightarrow> error + ('w, 'b) midas_net" where
  "MidasNet_init T w0 a =
     (case encoder_call T a of
        Inl msg \<Rightarrow> Inl (PrimitiveError msg)
      | Inr (pre, sb) \<Rightarrow>
          (case select_activation (stored_blocks a) of
             Inl e \<Rightarrow> Inl e
           | Inr act \<Rightarrow>
               (case make_output_conv a (stored_blocks a) act of
                  Inl e \<Rightarrow> Inl e
                | Inr head \<Rightarrow>
                    (case make_auxlayer (stored_blocks a) of
                       Inl e \<Rightarrow> Inl e
                     | Inr aux \<Rightarrow>
                         (case load_weights T a w0 of
                            Inl msg \<Rightarrow> Inl (PrimitiveError msg)
                          | Inr w \<Rightarrow>
                              (case freeze_pretrained (stored_blocks a) (modules pre) of
                                 Inl e \<Rightarrow> Inl e
                               | Inr ms \<Rightarrow>
                                   Inr \<lparr>channels_last = arg_channels_last a,
                                        blocks = stored_blocks a,
                                        backbone = arg_backbone a,
                                        monodepth = arg_monodepth a,
                                        num_classes = arg_num_classes a,
                                        dropout_rate = 0,
                                        groups = 1,
                                        expand = False,
                                        bn = use_batch_norm (arg_blocks a),
                                        hooks = blocks_get (arg_blocks a) ''hooks'' PyNone,
                                        use_readout =
                                          blocks_get (arg_blocks a) ''use_readout'' (PyStr ''ignore''),
                                        scale = blocks_get (arg_blocks a) ''scale'' (PyFloat 1),
                                        shift = blocks_get (arg_blocks a) ''shift'' (PyFloat 0),
                                        pretrained = pre\<lparr>modules := ms\<rparr>,
                                        scratch =
                                          make_scratch a sb act (use_batch_norm (arg_blocks a)) head,
                                        auxlayer = aux,
                                        freeze_bn = freeze_flag (stored_blocks a),
                                        weights = w\<rparr>))))))"

section \<open>The forward pass\<close>

text \<open>
  A run of the forward pass yields the list of submodule calls it made, in order, each with
  its arguments and its outcome, and either the exception it ended with or its value.
\<close>

datatype ('t, 'b) event =
  Call (callee_name: string) (callee: "'b nn_module") (call_args: "'t list")
    (call_result: "string + 't")

type_synonym ('t, 'b, 'a) run = "('t, 'b) event list \<times> (error + 'a)"

definition ret :: "'a \<Rightarrow> ('t, 'b, 'a) run" where
  "ret v = ([], Inr v)"

definition raise :: "error \<Rightarrow> ('t, 'b, 'a) run" where
  "raise e = ([], Inl e)"

definition bnd :: "('t, 'b, 'a) run \<Rightarrow> ('a \<Rightarrow> ('t, 'b, 'c) run) \<Rightarrow> ('t, 'b, 'c) run" where
  "bnd m f =
     (case snd m of
        Inl e \<Rightarrow> (fst m, Inl e)
      | Inr v \<Rightarrow> (fst m @ fst (f v), snd (f v)))"

text \<open>A tensor operation of the library: no submodule call, its exception passes through.\<close>

definition prim :: "string + 'a \<Rightarrow> ('t, 'b, 'a) run" where
  "prim r = (case r of Inl msg \<Rightarrow> raise (PrimitiveError msg) | Inr v \<Rightarrow> ret v)"

text \<open>Calling the submodule stored under an attribute path.\<close>

definition invoke ::
  "('t, 'w, 'b) prims \<Rightarrow> 'w \<Rightarrow> string \<Rightarrow> 'b nn_module \<Rightarrow> 't list \<Rightarrow> ('t, 'b, 't) run" where
  "invoke T w name md args =
     (let r = call T w name md args in
      ([Call name md args r],
       case r of Inl msg \<Rightarrow> Inl (PrimitiveError msg) | Inr v \<Rightarrow> Inr v))"

text \<open>Reading an attribute of the backbone object that may not exist.\<close>

definition getattr :: "string \<Rightarrow> 'a option \<Rightarrow> ('t, 'b, 'a) run" where
  "getattr name v = (case v of None \<Rightarrow> raise (AttributeError name) | Some h \<Rightarrow> ret h)"

text \<open>Reading a local variable that may not have been assigned.\<close>

definition local_var :: "string \<Rightarrow> 'a option \<Rightarrow> ('t, 'b, 'a) run" where
  "local_var name v = (case v of None \<Rightarrow> raise (UnboundLocalError name) | Some x \<Rightarrow> ret x)"

text \<open>What \<^verbatim>\<open>forward\<close> returns: one tensor, or the pair \<^verbatim>\<open>(out, auxout)\<close>.\<close>

datatype 't outputs = Single 't | WithAux 't 't

text \<open>
  Lines 247-255: the four feature maps of the backbone. The result is the state of the local
  variables \<^verbatim>\<open>layer_1 .. layer_4\<close> afterwards; \<open>None\<close> is a variable that was not assigned.
\<close>

definition forward_features ::
  "('t, 'w, 'b) prims \<Rightarrow> ('w, 'b) midas_net \<Rightarrow> 't
     \<Rightarrow> ('t, 'b, 't option \<times> 't option \<times> 't option \<times> 't option) run" where
  "forward_features T m x =
     (let p = pretrained m; w = weights m in
      case model p of
        Some vm \<Rightarrow>
          (case patch_size vm of
             Some _ \<Rightarrow>
               bnd (prim (forward_vit T w p x))
                 (\<lambda>(l1, l2, l3, l4). ret (Some l1, Some l2, Some l3, Some l4))
           | None \<Rightarrow> ret (None, None, None, None))
      | None \<Rightarrow>
          bnd (getattr ''layer1'' (layer1 p)) (\<lambda>h1.
          bnd (invoke T w ''pretrained.layer1'' (Pretrained_layer p h1) [x]) (\<lambda>l1.
          bnd (getattr ''layer2'' (layer2 p)) (\<lambda>h2.
          bnd (invoke T w ''pretrained.layer2'' (Pretrained_layer p h2) [l1]) (\<lambda>l2.
          bnd (getattr ''layer3'' (layer3 p)) (\<lambda>h3.
          bnd (invoke T w ''pretrained.layer3'' (Pretrained_layer p h3) [l2]) (\<lambda>l3.
          bnd (getattr ''layer4'' (layer4 p)) (\<lambda>h4.
          bnd (invoke T w ''pretrained.layer4'' (Pretrained_layer p h4) [l3]) (\<lambda>l4.
          ret (Some l1, Some l2, Some l3, Some l4))))))))))"

text \<open>Lines 257-265: the four projections, then the four fusion blocks. The value is
  \<^verbatim>\<open>(path_1, path_2)\<close>, the two results the rest of the pass reads.\<close>

definition forward_decoder ::
  "('t, 'w, 'b) prims \<Rightarrow> ('w, 'b) midas_net
     \<Rightarrow> 't option \<times> 't option \<times> 't option \<times> 't option \<Rightarrow> ('t, 'b, 't \<times> 't) run" where
  "forward_decoder T m ls =
     (let sc = scratch m; w = weights m in
      case ls of (layer_1, layer_2, layer_3, layer_4) \<Rightarrow>
        bnd (local_var ''layer_1'' layer_1) (\<lambda>v1.
        bnd (invoke T w ''scratch.layer1_rn'' (Scratch_layer (layer1_rn sc)) [v1]) (\<lambda>layer_1_rn.
        bnd (local_var ''layer_2'' layer_2) (\<lambda>v2.
        bnd (invoke T w ''scratch.layer2_rn'' (Scratch_layer (layer2_rn sc)) [v2]) (\<lambda>layer_2_rn.
        bnd (local_var ''layer_3'' layer_3) (\<lambda>v3.
        bnd (invoke T w ''scratch.layer3_rn'' (Scratch_layer (layer3_rn sc)) [v3]) (\<lambda>layer_3_rn.
        bnd (local_var ''layer_4'' layer_4) (\<lambda>v4.
        bnd (invoke T w ''scratch.layer4_rn'' (Scratch_layer (layer4_rn sc)) [v4]) (\<lambda>layer_4_rn.
        bnd (invoke T w ''scratch.refinenet4'' (FeatureFusionBlock_custom (refinenet4 sc))
               [layer_4_rn]) (\<lambda>path_4.
        bnd (invoke T w ''scratch.refinenet3'' (FeatureFusionBlock_custom (refinenet3 sc))
               [path_4, layer_3_rn]) (\<lambda>path_3.
        bnd (invoke T w ''scratch.refinenet2'' (FeatureFusionBlock_custom (refinenet2 sc))
               [path_3, layer_2_rn]) (\<lambda>path_2.
        bnd (invoke T w ''scratch.refinenet1'' (FeatureFusionBlock_custom (refinenet1 sc))
               [path_2, layer_1_rn]) (\<lambda>path_1.
        ret (path_1, path_2))))))))))))))"

text \<open>Lines 269-283: the output head, the affine transform, the auxiliary head when the
  attribute exists, and the value returned.\<close>

definition forward_head ::
  "('t, 'w, 'b) prims \<Rightarrow> ('w, 'b) midas_net \<Rightarrow> 't \<times> 't \<Rightarrow> ('t, 'b, 't outputs) run" where
  "forward_head T m ps =
     (let w = weights m in
      case ps of (path_1, path_2) \<Rightarrow>
        bnd (invoke T w ''scratch.output_conv'' (Sequential (output_conv (scratch m))) [path_1])
          (\<lambda>out0.
        bnd (prim (tensor_mul T out0 (scale m))) (\<lambda>scaled.
        bnd (prim (tensor_add T scaled (shift m))) (\<lambda>out.
        (case auxlayer m of
           Some aux \<Rightarrow>
             bnd (invoke T w ''auxlayer'' (Sequential aux) [path_2]) (\<lambda>auxout0.
             bnd (prim (interpolate T auxout0 (drop 2 (tensor_shape T out)) ''bilinear'' True))
               (\<lambda>auxout.
             ret (WithAux out auxout)))
         | None \<Rightarrow>
             if py_eq (monodepth m) (PyBool True) then
               bnd (prim (squeeze T out 1)) (\<lambda>sq. ret (Single sq))
             else ret (Single out))))))"

text \<open>Lines 247-283: the pass after the memory format conversion.\<close>

definition forward_body ::
  "('t, 'w, 'b) prims \<Rightarrow> ('w, 'b) midas_net \<Rightarrow> 't \<Rightarrow> ('t, 'b, 't outputs) run" where
  "forward_body T m x =
     bnd (forward_features T m x) (\<lambda>ls.
     bnd (forward_decoder T m ls) (\<lambda>ps.
     forward_head T m ps))"

text \<open>\<^verbatim>\<open>MidasNet.forward\<close> (lines 234-283). The result of \<^verbatim>\<open>x.contiguous(...)\<close> is dropped;
  the \<^verbatim>\<open>print\<close> is left out.\<close>

definition forward ::
  "('t, 'w, 'b) prims \<Rightarrow> ('w, 'b) midas_net \<Rightarrow> 't \<Rightarrow> ('t, 'b, 't outputs) run" where
  "forward T m x =
     bnd (if py_eq (channels_last m) (PyBool True)
          then bnd (prim (contiguous T x)) (\<lambda>_. ret ())
          else ret ()) (\<lambda>_.
     forward_body T m x)"

section \<open>Shapes\<close>

text \<open>
  The extent a convolution (dilation 1) gives to an axis of extent \<open>h\<close>, as the numerical
  library documents it.
\<close>

definition conv_extent :: "layer \<Rightarrow> nat \<Rightarrow> nat" where
  "conv_extent l h = nat ((int h + 2 * padding l - kernel_size l) div stride l + 1)"

text \<open>
  Modelled from the spec: \<^verbatim>\<open>Interpolate\<close> is a class of blocks.py, which is not among the
  sources; the spec calls it an upsampling by its fixed factor. The other cases are the
  library's: the shape a layer gives to an input of shape \<open>[n, c, h, w]\<close>, where a convolution
  changes the channel count and the two extents, and normalisation, activations and dropout
  keep the shape.
\<close>

fun shape_after :: "layer \<Rightarrow> nat list \<Rightarrow> nat list" where
  "shape_after (Conv2d ci co k s p g b) [n, c, h, w] =
     [n, nat co, conv_extent (Conv2d ci co k s p g b) h, conv_extent (Conv2d ci co k s p g b) w]"
| "shape_after (Interpolate sf md ac) [n, c, h, w] = [n, c, h * nat sf, w * nat sf]"
| "shape_after l shp = shp"

text \<open>\<^verbatim>\<open>torch.squeeze(t, dim=d)\<close> removes axis \<open>d\<close> when its extent is 1.\<close>

definition squeeze_shape :: "nat list \<Rightarrow> nat \<Rightarrow> nat list" where
  "squeeze_shape shp d =
     (if d < length shp \<and> shp ! d = 1 then take d shp @ drop (Suc d) shp else shp)"

text \<open>A shape of four axes with the batch axis of another.\<close>

definition keeps_batch :: "nat list \<Rightarrow> nat list \<Rightarrow> bool" where
  "keeps_batch shp shp' = (length shp' = 4 \<and> hd shp' = hd shp)"

text \<open>
  What the statements about shapes ask of the collaborators, on inputs with four axes:
  a sequence of layers that returns gives the shape of its layers in turn; the opaque
  modules and the fusion blocks return four axes and keep the batch axis of their first
  argument, and so does the hook-based extraction; multiplying by or adding a scalar keeps
  the shape; squeezing follows \<open>squeeze_shape\<close>.
\<close>

definition shape_contract :: "('t, 'w, 'b) prims \<Rightarrow> bool" where
  "shape_contract T =
     ((\<forall>w name ls x y. call T w name (Sequential ls) [x] = Inr y
          \<and> length (tensor_shape T x) = 4
          \<longrightarrow> tensor_shape T y = fold shape_after ls (tensor_shape T x))
    \<and> (\<forall>w name md x xs y. call T w name md (x # xs) = Inr y
          \<and> length (tensor_shape T x) = 4 \<and> (\<forall>ls. md \<noteq> Sequential ls)
          \<longrightarrow> keeps_batch (tensor_shape T x) (tensor_shape T y))
    \<and> (\<forall>w p x l1 l2 l3 l4. forward_vit T w p x = Inr (l1, l2, l3, l4)
          \<and> length (tensor_shape T x) = 4
          \<longrightarrow> keeps_batch (tensor_shape T x) (tensor_shape T l1)
            \<and> keeps_batch (tensor_shape T x) (tensor_shape T l2)
            \<and> keeps_batch (tensor_shape T x) (tensor_shape T l3)
            \<and> keeps_batch (tensor_shape T x) (tensor_shape T l4))
    \<and> (\<forall>t v y. tensor_mul T t v = Inr y \<longrightarrow> tensor_shape T y = tensor_shape T t)
    \<and> (\<forall>t v y. tensor_add T t v = Inr y \<longrightarrow> tensor_shape T y = tensor_shape T t)
    \<and> (\<forall>t d y. squeeze T t (int d) = Inr y
          \<longrightarrow> tensor_shape T y = squeeze_shape (tensor_shape T t) d))"

section \<open>A shape-level instance of the collaborators\<close>

text \<open>
  An instance of the parameters on which the two methods can be run: a tensor is its shape,
  there is a single value of weights, and an opaque module is the pair of its output channel
  count and the factor by which it divides the two spatial extents. It raises where the
  library would for lack of a batch axis or for a channel mismatch.
\<close>

type_synonym sim_module = "nat \<times> nat"

definition sim_opaque :: "sim_module \<Rightarrow> nat list \<Rightarrow> string + nat list" where
  "sim_opaque md shp =
     (case shp of
        [n, c, h, w] \<Rightarrow> Inr [n, fst md, h div snd md, w div snd md]
      | _ \<Rightarrow> Inl ''expected 4D input'')"

definition sim_layer :: "layer \<Rightarrow> nat list \<Rightarrow> string + nat list" where
  "sim_layer l shp =
     (case shp of
        [n, c, h, w] \<Rightarrow>
          (case l of
             Conv2d ci co k s p g b \<Rightarrow>
               if int c = ci then Inr (shape_after l shp) else Inl ''channel mismatch''
           | BatchNorm2d f \<Rightarrow>
               if int c = f then Inr shp else Inl ''channel mismatch''
           | _ \<Rightarrow> Inr (shape_after l shp))
      | _ \<Rightarrow> Inl ''expected 4D input'')"

fun sim_sequential :: "layer list \<Rightarrow> nat list \<Rightarrow> string + nat list" where
  "sim_sequential [] shp = Inr shp"
| "sim_sequential (l # ls) shp =
     (case sim_layer l shp of Inl e \<Rightarrow> Inl e | Inr shp' \<Rightarrow> sim_sequential ls shp')"

definition sim_fusion :: "fusion_block \<Rightarrow> nat list list \<Rightarrow> string + nat list" where
  "sim_fusion fb args =
     (case args of
        [] \<Rightarrow> Inl ''missing input''
      | shp # skips \<Rightarrow>
          (case shp of
             [n, c, h, w] \<Rightarrow>
               if int c = fb_features fb \<and> (\<forall>s \<in> set skips. s = shp)
               then Inr [n, c, 2 * h, 2 * w]
               else Inl ''size mismatch''
           | _ \<Rightarrow> Inl ''expected 4D input''))"

definition sim_call :: "unit \<Rightarrow> string \<Rightarrow> sim_module nn_module \<Rightarrow> nat list list
    \<Rightarrow> string + nat list" where
  "sim_call w name md args =
     (case md of
        Pretrained_layer p h \<Rightarrow>
          (case args of [shp] \<Rightarrow> sim_opaque h shp | _ \<Rightarrow> Inl ''wrong number of inputs'')
      | Scratch_layer h \<Rightarrow>
          (case args of [shp] \<Rightarrow> sim_opaque h shp | _ \<Rightarrow> Inl ''wrong number of inputs'')
      | Sequential ls \<Rightarrow>
          (case args of [shp] \<Rightarrow> sim_sequential ls shp | _ \<Rightarrow> Inl ''wrong number of inputs'')
      | FeatureFusionBlock_custom fb \<Rightarrow> sim_fusion fb args)"

definition sim_scratch_base :: "int \<Rightarrow> sim_module scratch_base" where
  "sim_scratch_base f =
     \<lparr>base_layer1_rn = (nat f, 1), base_layer2_rn = (nat f, 1),
      base_layer3_rn = (nat f, 1), base_layer4_rn = (nat f, 1)\<rparr>"

definition sim_modules :: "submodule list" where
  "sim_modules =
     [\<lparr>kind = Other_module, training = True,
       weight_requires_grad = Some True, bias_requires_grad = None\<rparr>,
      \<lparr>kind = BatchNorm2d_module, training = True,
       weight_requires_grad = Some True, bias_requires_grad = Some True\<rparr>]"

definition sim_make_encoder ::
  "pyval \<Rightarrow> int \<Rightarrow> bool \<Rightarrow> int \<Rightarrow> bool \<Rightarrow> pyval \<Rightarrow> pyval \<Rightarrow> pyval
     \<Rightarrow> string + (sim_module pretrained \<times> sim_module scratch_base)" where
  "sim_make_encoder bb f up g ex exportable hk ur =
     (if bb = PyStr ''resnext101_wsl'' then
        Inr (\<lparr>model = None, layer1 = Some (256, 4), layer2 = Some (512, 2),
              layer3 = Some (1024, 2), layer4 = Some (2048, 2), modules = sim_modules\<rparr>,
             sim_scratch_base f)
      else if bb = PyStr ''vitb_rn50_384'' then
        Inr (\<lparr>model = Some \<lparr>patch_size = Some (PyList [PyInt 16, PyInt 16])\<rparr>,
              layer1 = None, layer2 = None, layer3 = None, layer4 = None,
              modules = sim_modules\<rparr>,
             sim_scratch_base f)
      else Inl ''backbone not implemented'')"

definition sim_forward_vit :: "unit \<Rightarrow> sim_module pretrained \<Rightarrow> nat list
    \<Rightarrow> string + (nat list \<times> nat list \<times> nat list \<times> nat list)" where
  "sim_forward_vit w p shp =
     (case shp of
        [n, c, h, w] \<Rightarrow>
          if c = 3 then
            Inr ([n, 256, h div 4, w div 4], [n, 512, h div 8, w div 8],
                 [n, 768, h div 16, w div 16], [n, 768, h div 32, w div 32])
          else Inl ''channel mismatch''
      | _ \<Rightarrow> Inl ''expected 4D input'')"

definition sim_scalar_op :: "nat list \<Rightarrow> pyval \<Rightarrow> string + nat list" where
  "sim_scalar_op shp v = (if py_num v = None then Inl ''unsupported operand'' else Inr shp)"

definition sim_interpolate :: "nat list \<Rightarrow> nat list \<Rightarrow> string \<Rightarrow> bool \<Rightarrow> string + nat list" where
  "sim_interpolate shp sz md ac =
     (if length shp = 4 \<and> length sz = 2 then Inr (take 2 shp @ sz)
      else Inl ''size does not match the input'')"

definition sim_squeeze :: "nat list \<Rightarrow> int \<Rightarrow> string + nat list" where
  "sim_squeeze shp d =
     (if 0 \<le> d \<and> nat d < length shp then Inr (squeeze_shape shp (nat d))
      else Inl ''dimension out of range'')"

definition sim_contiguous :: "nat list \<Rightarrow> string + nat list" where
  "sim_contiguous shp =
     (if length shp = 4 then Inr shp else Inl ''required rank 4 tensor'')"

definition shape_sim :: "(nat list, unit, sim_module) prims" where
  "shape_sim =
     \<lparr>make_encoder = sim_make_encoder,
      load = (\<lambda>path w. Inr w),
      contiguous = sim_contiguous,
      forward_vit = sim_forward_vit,
      call = sim_call,
      tensor_mul = sim_scalar_op,
      tensor_add = sim_scalar_op,
      tensor_shape = (\<lambda>shp. shp),
      interpolate = sim_interpolate,
      squeeze = sim_squeeze\<rparr>"

text \<open>
  The object the constructor returns on this instance for the default arguments (shown below),
  and the same object with an auxiliary head of the kind lines 211-217 describe.
\<close>

definition sim_vit_backbone :: "sim_module pretrained" where
  "sim_vit_backbone =
     \<lparr>model = Some \<lparr>patch_size = Some (PyList [PyInt 16, PyInt 16])\<rparr>,
      layer1 = None, layer2 = None, layer3 = None, layer4 = None,
      modules =
        [\<lparr>kind = Other_module, training = True,
          weight_requires_grad = Some True, bias_requires_grad = None\<rparr>,
         \<lparr>kind = BatchNorm2d_module, training = False,
          weight_requires_grad = Some False, bias_requires_grad = Some False\<rparr>]\<rparr>"

definition sim_depth_net :: "(unit, sim_module) midas_net" where
  "sim_depth_net =
     \<lparr>channels_last = PyBool False,
      blocks = default_blocks,
      backbone = PyStr ''vitb_rn50_384'',
      monodepth = PyBool True,
      num_classes = 150,
      dropout_rate = 0,
      groups = 1,
      expand = False,
      bn = False,
      hooks = PyList [PyInt 0, PyInt 1, PyInt 8, PyInt 11],
      use_readout = PyStr ''project'',
      scale = PyFloat 1,
      shift = PyFloat 0,
      pretrained = sim_vit_backbone,
      scratch =
        make_scratch default_args (sim_scratch_base 256) (ReLU False) False
          [Conv2d 256 128 3 1 1 1 True,
           Interpolate 2 ''bilinear'' None,
           Conv2d 128 32 3 1 1 1 True,
           ReLU False,
           Conv2d 32 1 1 1 0 1 True,
           ReLU True,
           Identity],
      auxlayer = None,
      freeze_bn = True,
      weights = ()\<rparr>"

definition sim_aux_net :: "(unit, sim_module) midas_net" where
  "sim_aux_net =
     sim_depth_net
       \<lparr>auxlayer :=
          Some [Conv2d 256 256 3 1 1 1 False,
                BatchNorm2d 256,
                ReLU True,
                Dropout 0 False,
                Conv2d 256 150 1 1 0 1 True]\<rparr>"

text \<open>
  The backbone object of the object the constructor returns on this instance for the backbone
  \<^verbatim>\<open>resnext101_wsl\<close> (shown below): no \<^verbatim>\<open>model\<close>, and the four stages as attributes.
\<close>

definition sim_resnet_backbone :: "sim_module pretrained" where
  "sim_resnet_backbone =
     \<lparr>model = None, layer1 = Some (256, 4), layer2 = Some (512, 2),
      layer3 = Some (1024, 2), layer4 = Some (2048, 2),
      modules =
        [\<lparr>kind = Other_module, training = True,
          weight_requires_grad = Some True, bias_requires_grad = None\<rparr>,
         \<lparr>kind = BatchNorm2d_module, training = False,
          weight_requires_grad = Some False, bias_requires_grad = Some False\<rparr>]\<rparr>"

section \<open>Notions the statements use\<close>

text \<open>
  The value an absent key of \<^verbatim>\<open>blocks\<close> stands for, for the keys the constructor reads
  behind a presence check (lines 70-88, 101-113, 210, 222-224). \<^verbatim>\<open>"widehead"\<close> and
  \<^verbatim>\<open>"widehead_hr"\<close> are read by subscript and have none; \<^verbatim>\<open>"expand"\<close> is never read.
\<close>

definition absent_default :: "string \<Rightarrow> pyval option" where
  "absent_default k =
     (if k = ''activation'' then Some PyNone
      else if k = ''batch_norm'' then Some (PyBool False)
      else if k = ''freeze_bn'' then Some (PyBool True)
      else if k = ''hooks'' then Some PyNone
      else if k = ''use_readout'' then Some (PyStr ''ignore'')
      else if k = ''aux'' then Some PyNone
      else if k = ''scale'' then Some (PyFloat 1)
      else if k = ''shift'' then Some (PyFloat 0)
      else None)"

definition keys_read :: "string set" where
  "keys_read =
     {''activation'', ''batch_norm'', ''freeze_bn'', ''hooks'', ''use_readout'', ''aux'',
      ''scale'', ''shift'', ''widehead'', ''widehead_hr''}"

text \<open>
  Storing \<open>v\<close> under the absent key \<open>k\<close> is to make no difference to the constructor
  called with the arguments \<open>a\<close>: \<open>v\<close> is the value the absent key stands for, or \<open>k\<close>
  is not a key the constructor reads, or \<open>k\<close> is one of the two keys of the head selection
  and the arguments ask for depth mode.
\<close>

definition stands_for_absent :: "midas_args \<Rightarrow> string \<Rightarrow> pyval \<Rightarrow> bool" where
  "stands_for_absent a k v =
     (arg_blocks a k = None
      \<and> (absent_default k = Some v
         \<or> k \<notin> keys_read
         \<or> (k \<in> {''widehead'', ''widehead_hr''} \<and> py_eq (arg_monodepth a) (PyBool True))))"

text \<open>The constructed object without the dictionary it keeps in \<^verbatim>\<open>self.blocks\<close>, which
  no later line of the file reads.\<close>

definition forget_blocks :: "('w, 'b) midas_net \<Rightarrow> ('w, 'b) midas_net" where
  "forget_blocks m = m\<lparr>blocks := Map.empty\<rparr>"

text \<open>
  The two kinds of backbone object the forward pass has a branch for (lines 247-255): one with
  a \<^verbatim>\<open>model\<close> that has a \<^verbatim>\<open>patch_size\<close>, whose feature maps \<^verbatim>\<open>forward_vit\<close> extracts, or one
  without \<^verbatim>\<open>model\<close> and with the attributes \<^verbatim>\<open>layer1 .. layer4\<close>. The contract of the backbone,
  four feature maps either via a hook-based extraction or via the named attributes, is read as:
  the object is of one of these two kinds. \<^verbatim>\<open>_make_encoder\<close>, which makes the object, is a
  function of blocks.py and not among the sources.
\<close>

definition supported_backbone :: "'b pretrained \<Rightarrow> bool" where
  "supported_backbone p =
     (case model p of
        Some vm \<Rightarrow> patch_size vm \<noteq> None
      | None \<Rightarrow> layer1 p \<noteq> None \<and> layer2 p \<noteq> None \<and> layer3 p \<noteq> None \<and> layer4 p \<noteq> None)"

text \<open>
  The calls of the decoder among the events of a run: those of a projection or of a fusion
  block.
\<close>

definition decoder_event :: "('t, 'b) event \<Rightarrow> bool" where
  "decoder_event ev =
     (case callee ev of
        Scratch_layer _ \<Rightarrow> True
      | FeatureFusionBlock_custom _ \<Rightarrow> True
      | _ \<Rightarrow> False)"

text \<open>
  The decoder as the spec describes it, as a list of calls that all return: the four
  projections of the feature maps \<open>l1 .. l4\<close> with results \<open>q1 .. q4\<close>, then \<^verbatim>\<open>refinenet4\<close> on
  \<open>q4\<close> alone, and each \<^verbatim>\<open>refinenet\<close> \<open>i\<close> below it on the result of the block before and on
  \<open>q\<close>\<open>i\<close>.
\<close>

definition decoder_chain ::
  "('w, 'b) midas_net \<Rightarrow> 't \<Rightarrow> 't \<Rightarrow> 't \<Rightarrow> 't \<Rightarrow> 't \<Rightarrow> 't \<Rightarrow> 't \<Rightarrow> 't \<Rightarrow> 't \<Rightarrow> 't \<Rightarrow> 't \<Rightarrow> 't
     \<Rightarrow> ('t, 'b) event list" where
  "decoder_chain m l1 l2 l3 l4 q1 q2 q3 q4 p4 p3 p2 p1 =
     [Call ''scratch.layer1_rn'' (Scratch_layer (layer1_rn (scratch m))) [l1] (Inr q1),
      Call ''scratch.layer2_rn'' (Scratch_layer (layer2_rn (scratch m))) [l2] (Inr q2),
      Call ''scratch.layer3_rn'' (Scratch_layer (layer3_rn (scratch m))) [l3] (Inr q3),
      Call ''scratch.layer4_rn'' (Scratch_layer (layer4_rn (scratch m))) [l4] (Inr q4),
      Call ''scratch.refinenet4'' (FeatureFusionBlock_custom (refinenet4 (scratch m)))
        [q4] (Inr p4),
      Call ''scratch.refinenet3'' (FeatureFusionBlock_custom (refinenet3 (scratch m)))
        [p4, q3] (Inr p3),
      Call ''scratch.refinenet2'' (FeatureFusionBlock_custom (refinenet2 (scratch m)))
        [p3, q2] (Inr p2),
      Call ''scratch.refinenet1'' (FeatureFusionBlock_custom (refinenet1 (scratch m)))
        [p2, q1] (Inr p1)]"

text \<open>The same call, raising instead of returning.\<close>

definition failed :: "('t, 'b) event \<Rightarrow> string \<Rightarrow> ('t, 'b) event" where
  "failed ev msg = Call (callee_name ev) (callee ev) (call_args ev) (Inl msg)"

section \<open>Facts about runs\<close>

lemma bnd_ret [simp]: "bnd (ret v) f = f v"
  by (simp add: bnd_def ret_def)

lemma bnd_raise [simp]: "bnd (raise e) f = raise e"
  by (simp add: bnd_def raise_def)

lemma bnd_Pair_Inl [simp]: "bnd (l, Inl e) f = (l, Inl e)"
  by (simp add: bnd_def)

lemma bnd_Pair_Inr [simp]: "bnd (l, Inr v) f = (l @ fst (f v), snd (f v))"
  by (simp add: bnd_def)

lemma run_ret [simp]: "fst (ret v) = []" "snd (ret v) = Inr v"
  by (simp_all add: ret_def)

lemma run_raise [simp]: "fst (raise e) = []" "snd (raise e) = Inl e"
  by (simp_all add: raise_def)

lemma snd_bnd_Inr: "snd (bnd m f) = Inr r \<longleftrightarrow> (\<exists>v. snd m = Inr v \<and> snd (f v) = Inr r)"
  by (cases "snd m") (simp_all add: bnd_def)

lemma snd_bnd_Inl:
  "snd (bnd m f) = Inl e \<longleftrightarrow> snd m = Inl e \<or> (\<exists>v. snd m = Inr v \<and> snd (f v) = Inl e)"
  by (cases "snd m") (simp_all add: bnd_def)

lemma fst_bnd_Inr: "snd m = Inr v \<Longrightarrow> fst (bnd m f) = fst m @ fst (f v)"
  by (simp add: bnd_def)

lemma fst_bnd_Inl: "snd m = Inl e \<Longrightarrow> fst (bnd m f) = fst m"
  by (simp add: bnd_def)

lemma fst_prim [simp]: "fst (prim r) = []"
  by (cases r) (simp_all add: prim_def)

lemma snd_prim_Inr [simp]: "snd (prim r) = Inr v \<longleftrightarrow> r = Inr v"
  by (cases r) (simp_all add: prim_def)

lemma snd_prim_Inl [simp]:
  "snd (prim r) = Inl e \<longleftrightarrow> (\<exists>msg. r = Inl msg \<and> e = PrimitiveError msg)"
  by (cases r) (auto simp add: prim_def)

lemma fst_invoke [simp]:
  "fst (invoke T w name md args) = [Call name md args (call T w name md args)]"
  by (simp add: invoke_def Let_def)

lemma snd_invoke_Inr [simp]:
  "snd (invoke T w name md args) = Inr v \<longleftrightarrow> call T w name md args = Inr v"
  by (cases "call T w name md args") (simp_all add: invoke_def Let_def)

lemma snd_invoke_Inl [simp]:
  "snd (invoke T w name md args) = Inl e
     \<longleftrightarrow> (\<exists>msg. call T w name md args = Inl msg \<and> e = PrimitiveError msg)"
  by (cases "call T w name md args") (auto simp add: invoke_def Let_def)

section \<open>Facts about the constructor\<close>

lemma py_eq_PyStr [simp]: "py_eq v (PyStr s) \<longleftrightarrow> v = PyStr s"
  by (cases v) (auto split: pyval.splits)

lemma blocks_item_simps [simp]:
  "b k = None \<Longrightarrow> blocks_item b k = Inl (KeyError k)"
  "b k = Some v \<Longrightarrow> blocks_item b k = Inr v"
  by (simp_all add: blocks_item_def)

lemma stored_blocks_other [simp]: "k \<noteq> ''activation'' \<Longrightarrow> stored_blocks a k = arg_blocks a k"
  by (simp add: stored_blocks_def split: option.splits)

lemma stored_blocks_activation:
  "stored_blocks a ''activation'' = Some (blocks_get (arg_blocks a) ''activation'' PyNone)"
  by (simp add: stored_blocks_def blocks_get_def split: option.splits)

lemma make_auxlayer_Inr: "make_auxlayer b = Inr aux \<Longrightarrow> aux = None"
  by (auto simp: make_auxlayer_def split: option.splits if_splits)

lemma make_auxlayer_True:
  "b ''aux'' = Some v \<Longrightarrow> py_eq v (PyBool True) \<Longrightarrow> make_auxlayer b = Inl (NameError ''features2'')"
  by (simp add: make_auxlayer_def)

lemma select_activation_cases:
  "select_activation (stored_blocks a) =
     (let v = blocks_get (arg_blocks a) ''activation'' PyNone in
      if v = PyStr ''mish'' then Inl (NameError ''Mish'')
      else if v = PyStr ''hard_mish'' then Inl (NameError ''HardMish'')
      else if v = PyStr ''leaky'' then Inr (LeakyReLU (1 / 10))
      else if v = PyStr ''relu'' then Inr (ReLU False)
      else Inr Identity)"
  by (simp add: select_activation_def stored_blocks_activation Let_def)

lemma py_eq_PyBool_simps [simp]:
  "\<not> py_eq PyNone (PyBool b)" "py_eq (PyBool c) (PyBool b) \<longleftrightarrow> c = b"
  "\<not> py_eq (PyStr s) (PyBool b)"
  by (cases b; cases c; simp)+

lemma stored_blocks_update:
  "stored_blocks (a\<lparr>arg_blocks := (arg_blocks a)(k \<mapsto> v)\<rparr>) k' =
     (if k' = k then Some v else stored_blocks a k')"
  by (simp add: stored_blocks_def split: option.splits)

text \<open>The head selection reads the two keys of \<^verbatim>\<open>blocks\<close> in segmentation mode only.\<close>

lemma make_output_conv_cong:
  assumes "arg_features a' = arg_features a" "arg_monodepth a' = arg_monodepth a"
    "arg_non_negative a' = arg_non_negative a" "arg_num_classes a' = arg_num_classes a"
    "arg_align_corners a' = arg_align_corners a"
    "\<not> py_eq (arg_monodepth a) (PyBool True) \<Longrightarrow>
       b' ''widehead'' = b ''widehead'' \<and> b' ''widehead_hr'' = b ''widehead_hr''"
  shows "make_output_conv a' b' act = make_output_conv a b act"
  using assms by (cases "py_eq (arg_monodepth a) (PyBool True)")
     (simp_all add: make_output_conv_def blocks_item_def Let_def cong: if_cong sum.case_cong)

lemma load_weights_blocks: "load_weights T (a\<lparr>arg_blocks := b\<rparr>) w0 = load_weights T a w0"
  by (simp add: load_weights_def)

lemma make_scratch_blocks:
  "make_scratch (a\<lparr>arg_blocks := b\<rparr>) sb act u head = make_scratch a sb act u head"
  by (simp add: make_scratch_def make_refinenet_def)

text \<open>What a constructor call that returns has gone through, and the object it returns.\<close>

lemma init_Inr:
  assumes "MidasNet_init T w0 a = Inr m"
  shows "\<exists>pre sb act head w ms.
      encoder_call T a = Inr (pre, sb)
    \<and> select_activation (stored_blocks a) = Inr act
    \<and> make_output_conv a (stored_blocks a) act = Inr head
    \<and> make_auxlayer (stored_blocks a) = Inr None
    \<and> load_weights T a w0 = Inr w
    \<and> freeze_pretrained (stored_blocks a) (modules pre) = Inr ms
    \<and> m = \<lparr>channels_last = arg_channels_last a,
            blocks = stored_blocks a,
            backbone = arg_backbone a,
            monodepth = arg_monodepth a,
            num_classes = arg_num_classes a,
            dropout_rate = 0,
            groups = 1,
            expand = False,
            bn = use_batch_norm (arg_blocks a),
            hooks = blocks_get (arg_blocks a) ''hooks'' PyNone,
            use_readout = blocks_get (arg_blocks a) ''use_readout'' (PyStr ''ignore''),
            scale = blocks_get (arg_blocks a) ''scale'' (PyFloat 1),
            shift = blocks_get (arg_blocks a) ''shift'' (PyFloat 0),
            pretrained = pre\<lparr>modules := ms\<rparr>,
            scratch = make_scratch a sb act (use_batch_norm (arg_blocks a)) head,
            auxlayer = None,
            freeze_bn = freeze_flag (stored_blocks a),
            weights = w\<rparr>"
  using assms unfolding MidasNet_init_def
  by (auto split: sum.splits prod.splits dest: make_auxlayer_Inr)

text \<open>The definitions a run of the constructor on the shape-level instance unfolds.\<close>

lemmas sim_init_defs =
  MidasNet_init_def encoder_call_def blocks_get_def blocks_item_def select_activation_def
  make_output_conv_def make_auxlayer_def stored_blocks_def shape_sim_def sim_make_encoder_def
  default_args_def default_blocks_def

section \<open>The auxiliary head\<close>

text \<open>
  Claim C4 says that with \<^verbatim>\<open>blocks["aux"] == True\<close> the construction succeeds and the
  forward pass returns a second, auxiliary output. The code does not get that far: the
  layers of the auxiliary head are built from the unbound name \<^verbatim>\<open>features2\<close>, so whatever
  the other arguments are, a constructor call with \<^verbatim>\<open>"aux": True\<close> never returns an
  object; on the default arguments with that one key added it ends with the
  \<^verbatim>\<open>NameError\<close> for \<^verbatim>\<open>features2\<close>.
\<close>

theorem aux_head_construction_fails:
  "(\<forall>m. MidasNet_init T w0 (a\<lparr>arg_blocks := (arg_blocks a)(''aux'' \<mapsto> PyBool True)\<rparr>) \<noteq> Inr m)
   \<and> MidasNet_init shape_sim ()
        (default_args\<lparr>arg_blocks := default_blocks(''aux'' \<mapsto> PyBool True)\<rparr>)
       = Inl (NameError ''features2'')"
proof
  let ?a = "a\<lparr>arg_blocks := (arg_blocks a)(''aux'' \<mapsto> PyBool True)\<rparr>"
  have "make_auxlayer (stored_blocks ?a) = Inl (NameError ''features2'')"
    by (rule make_auxlayer_True[where v = "PyBool True"]) simp_all
  then show "\<forall>m. MidasNet_init T w0 ?a \<noteq> Inr m"
    by (auto dest!: init_Inr)
next
  show "MidasNet_init shape_sim ()
          (default_args\<lparr>arg_blocks := default_blocks(''aux'' \<mapsto> PyBool True)\<rparr>)
        = Inl (NameError ''features2'')"
    by (simp add: sim_init_defs)
qed

section \<open>The head selection in segmentation mode\<close>

text \<open>
  Claim C6: when the model is built in segmentation mode (\<^verbatim>\<open>monodepth\<close> is not equal to
  \<^verbatim>\<open>True\<close>) and the head selection reaches the \<^verbatim>\<open>"widehead_hr"\<close> option (the encoder was
  made, the activation was selected, \<^verbatim>\<open>"widehead"\<close> is present and not equal to \<^verbatim>\<open>True\<close>)
  while that key is absent, the construction ends with the \<^verbatim>\<open>KeyError\<close> for
  \<^verbatim>\<open>"widehead_hr"\<close>: no other error, and no head chosen by default.
\<close>

theorem widehead_hr_missing_key:
  assumes "encoder_call T a = Inr enc"
    and "select_activation (stored_blocks a) = Inr act"
    and "\<not> py_eq (arg_monodepth a) (PyBool True)"
    and "arg_blocks a ''widehead'' = Some wh"
    and "\<not> py_eq wh (PyBool True)"
    and "arg_blocks a ''widehead_hr'' = None"
  shows "MidasNet_init T w0 a = Inl (KeyError ''widehead_hr'')"
proof -
  have "make_output_conv a (stored_blocks a) act = Inl (KeyError ''widehead_hr'')"
    using assms(3-6) by (simp add: make_output_conv_def)
  with assms(1,2) show ?thesis
    by (cases enc) (simp add: MidasNet_init_def)
qed

text \<open>The default arguments in segmentation mode are such a case: the default \<^verbatim>\<open>blocks\<close>
  has \<^verbatim>\<open>"widehead": False\<close> and no \<^verbatim>\<open>"widehead_hr"\<close>.\<close>

theorem widehead_hr_missing_key_witness:
  "MidasNet_init shape_sim () (default_args\<lparr>arg_monodepth := PyBool False\<rparr>)
     = Inl (KeyError ''widehead_hr'')"
  by (rule widehead_hr_missing_key[where act = "ReLU False" and wh = "PyBool False"])
     (simp_all add: sim_init_defs)

section \<open>The activation\<close>

text \<open>
  Claim C9: once the encoder is made, a constructor call with \<^verbatim>\<open>blocks["activation"]\<close> equal
  to \<^verbatim>\<open>"mish"\<close> ends with the \<^verbatim>\<open>NameError\<close> for \<^verbatim>\<open>Mish\<close>, and one with \<^verbatim>\<open>"hard_mish"\<close> with
  the \<^verbatim>\<open>NameError\<close> for \<^verbatim>\<open>HardMish\<close>. For any other value besides \<^verbatim>\<open>"leaky"\<close> and \<^verbatim>\<open>"relu"\<close>,
  and for an absent key, the selection raises nothing and gives the identity, which is the
  activation of every object the constructor then returns.
\<close>

theorem activation_selection:
  assumes "encoder_call T a = Inr enc"
  shows "(arg_blocks a ''activation'' = Some (PyStr ''mish'')
            \<longrightarrow> MidasNet_init T w0 a = Inl (NameError ''Mish''))
       \<and> (arg_blocks a ''activation'' = Some (PyStr ''hard_mish'')
            \<longrightarrow> MidasNet_init T w0 a = Inl (NameError ''HardMish''))
       \<and> (arg_blocks a ''activation''
              \<notin> Some ` PyStr ` {''mish'', ''hard_mish'', ''leaky'', ''relu''}
            \<longrightarrow> select_activation (stored_blocks a) = Inr Identity
              \<and> (\<forall>m. MidasNet_init T w0 a = Inr m \<longrightarrow> activation (scratch m) = Identity))"
proof (intro conjI impI allI)
  assume "arg_blocks a ''activation'' = Some (PyStr ''mish'')"
  then have "select_activation (stored_blocks a) = Inl (NameError ''Mish'')"
    by (simp add: select_activation_cases blocks_get_def)
  with assms show "MidasNet_init T w0 a = Inl (NameError ''Mish'')"
    by (cases enc) (simp add: MidasNet_init_def)
next
  assume "arg_blocks a ''activation'' = Some (PyStr ''hard_mish'')"
  then have "select_activation (stored_blocks a) = Inl (NameError ''HardMish'')"
    by (simp add: select_activation_cases blocks_get_def)
  with assms show "MidasNet_init T w0 a = Inl (NameError ''HardMish'')"
    by (cases enc) (simp add: MidasNet_init_def)
next
  assume "arg_blocks a ''activation''
            \<notin> Some ` PyStr ` {''mish'', ''hard_mish'', ''leaky'', ''relu''}"
  then show sel: "select_activation (stored_blocks a) = Inr Identity"
    by (cases "arg_blocks a ''activation''")
       (auto simp add: select_activation_cases blocks_get_def)
  fix m
  assume "MidasNet_init T w0 a = Inr m"
  from init_Inr[OF this] sel show "activation (scratch m) = Identity"
    by (auto simp add: make_scratch_def)
qed

text \<open>On the shape-level instance: the two undefined names, and an empty \<^verbatim>\<open>blocks\<close>, for
  which the constructor returns an object whose activation is the identity.\<close>

theorem activation_selection_witness:
  "MidasNet_init shape_sim () (default_args\<lparr>arg_blocks := [''activation'' \<mapsto> PyStr ''mish'']\<rparr>)
     = Inl (NameError ''Mish'')
   \<and> MidasNet_init shape_sim ()
       (default_args\<lparr>arg_blocks := [''activation'' \<mapsto> PyStr ''hard_mish'']\<rparr>)
     = Inl (NameError ''HardMish'')
   \<and> (\<exists>m. MidasNet_init shape_sim () (default_args\<lparr>arg_blocks := Map.empty\<rparr>) = Inr m
          \<and> activation (scratch m) = Identity)"
proof (intro conjI)
  let ?enc = "sim_make_encoder (PyStr ''vitb_rn50_384'') 256 True 1 False (PyBool False)
                PyNone (PyStr ''ignore'')"
  have enc: "\<And>b. b ''hooks'' = None \<Longrightarrow> b ''use_readout'' = None \<Longrightarrow>
     encoder_call shape_sim (default_args\<lparr>arg_blocks := b\<rparr>) = Inr (projr ?enc)"
    by (simp add: encoder_call_def blocks_get_def shape_sim_def sim_make_encoder_def
          default_args_def)
  show "MidasNet_init shape_sim ()
          (default_args\<lparr>arg_blocks := [''activation'' \<mapsto> PyStr ''mish'']\<rparr>)
        = Inl (NameError ''Mish'')"
    using activation_selection[OF enc, of "[''activation'' \<mapsto> PyStr ''mish'']" "()"] by simp
  show "MidasNet_init shape_sim ()
          (default_args\<lparr>arg_blocks := [''activation'' \<mapsto> PyStr ''hard_mish'']\<rparr>)
        = Inl (NameError ''HardMish'')"
    using activation_selection[OF enc, of "[''activation'' \<mapsto> PyStr ''hard_mish'']" "()"]
    by simp
  have "\<exists>m. MidasNet_init shape_sim () (default_args\<lparr>arg_blocks := Map.empty\<rparr>) = Inr m"
    by (simp add: sim_init_defs load_weights_def freeze_pretrained_def freeze_flag_def
          sim_modules_def)
  then show "\<exists>m. MidasNet_init shape_sim () (default_args\<lparr>arg_blocks := Map.empty\<rparr>) = Inr m
          \<and> activation (scratch m) = Identity"
    using activation_selection[OF enc, of Map.empty "()"] by auto
qed

section \<open>Optional keys of the configuration\<close>

text \<open>The cases of \<open>stands_for_absent\<close>, one by one.\<close>

lemma stands_for_absent_cases:
  assumes "stands_for_absent a k v"
  shows "arg_blocks a k = None
    \<and> ((k = ''activation'' \<and> v = PyNone) \<or> (k = ''batch_norm'' \<and> v = PyBool False)
       \<or> (k = ''freeze_bn'' \<and> v = PyBool True) \<or> (k = ''hooks'' \<and> v = PyNone)
       \<or> (k = ''use_readout'' \<and> v = PyStr ''ignore'') \<or> (k = ''aux'' \<and> v = PyNone)
       \<or> (k = ''scale'' \<and> v = PyFloat 1) \<or> (k = ''shift'' \<and> v = PyFloat 0)
       \<or> k \<notin> keys_read
       \<or> (k \<in> {''widehead'', ''widehead_hr''} \<and> py_eq (arg_monodepth a) (PyBool True)))"
  using assms unfolding stands_for_absent_def absent_default_def
  by (simp split: if_splits)

lemma absent_encoder_call:
  assumes "stands_for_absent a k v"
  shows "encoder_call T (a\<lparr>arg_blocks := (arg_blocks a)(k \<mapsto> v)\<rparr>) = encoder_call T a"
  using stands_for_absent_cases[OF assms]
  by (elim conjE disjE) (auto simp add: encoder_call_def blocks_get_def keys_read_def)

lemma absent_select_activation:
  assumes "stands_for_absent a k v"
  shows "select_activation (stored_blocks (a\<lparr>arg_blocks := (arg_blocks a)(k \<mapsto> v)\<rparr>))
       = select_activation (stored_blocks a)"
  using stands_for_absent_cases[OF assms]
  by (elim conjE disjE) (auto simp add: select_activation_cases blocks_get_def keys_read_def)

lemma absent_make_output_conv:
  assumes "stands_for_absent a k v"
  shows "make_output_conv (a\<lparr>arg_blocks := (arg_blocks a)(k \<mapsto> v)\<rparr>)
           (stored_blocks (a\<lparr>arg_blocks := (arg_blocks a)(k \<mapsto> v)\<rparr>)) act
       = make_output_conv a (stored_blocks a) act"
proof (rule make_output_conv_cong)
  assume "\<not> py_eq (arg_monodepth a) (PyBool True)"
  with stands_for_absent_cases[OF assms]
  show "stored_blocks (a\<lparr>arg_blocks := (arg_blocks a)(k \<mapsto> v)\<rparr>) ''widehead''
          = stored_blocks a ''widehead''
      \<and> stored_blocks (a\<lparr>arg_blocks := (arg_blocks a)(k \<mapsto> v)\<rparr>) ''widehead_hr''
          = stored_blocks a ''widehead_hr''"
    by (elim conjE disjE) (auto simp add: stored_blocks_update keys_read_def)
qed simp_all

lemma absent_make_auxlayer:
  assumes "stands_for_absent a k v"
  shows "make_auxlayer (stored_blocks (a\<lparr>arg_blocks := (arg_blocks a)(k \<mapsto> v)\<rparr>))
       = make_auxlayer (stored_blocks a)"
  using stands_for_absent_cases[OF assms]
  by (elim conjE disjE) (auto simp add: make_auxlayer_def stored_blocks_update keys_read_def)

lemma absent_freeze_flag:
  assumes "stands_for_absent a k v"
  shows "freeze_flag (stored_blocks (a\<lparr>arg_blocks := (arg_blocks a)(k \<mapsto> v)\<rparr>))
       = freeze_flag (stored_blocks a)"
  using stands_for_absent_cases[OF assms]
  by (elim conjE disjE) (auto simp add: freeze_flag_def stored_blocks_update keys_read_def)

lemma absent_use_batch_norm:
  assumes "stands_for_absent a k v"
  shows "use_batch_norm ((arg_blocks a)(k \<mapsto> v)) = use_batch_norm (arg_blocks a)"
  using stands_for_absent_cases[OF assms]
  by (elim conjE disjE) (auto simp add: use_batch_norm_def keys_read_def)

lemma absent_blocks_get:
  assumes "stands_for_absent a k v"
  shows "blocks_get ((arg_blocks a)(k \<mapsto> v)) ''hooks'' PyNone
           = blocks_get (arg_blocks a) ''hooks'' PyNone"
    and "blocks_get ((arg_blocks a)(k \<mapsto> v)) ''use_readout'' (PyStr ''ignore'')
           = blocks_get (arg_blocks a) ''use_readout'' (PyStr ''ignore'')"
    and "blocks_get ((arg_blocks a)(k \<mapsto> v)) ''scale'' (PyFloat 1)
           = blocks_get (arg_blocks a) ''scale'' (PyFloat 1)"
    and "blocks_get ((arg_blocks a)(k \<mapsto> v)) ''shift'' (PyFloat 0)
           = blocks_get (arg_blocks a) ''shift'' (PyFloat 0)"
  using stands_for_absent_cases[OF assms]
  by (elim conjE disjE; auto simp add: blocks_get_def keys_read_def)+

text \<open>
  Claim C3 says that the construction succeeds with any subset of the named keys of
  \<^verbatim>\<open>blocks\<close> absent. In segmentation mode it does not: \<^verbatim>\<open>"widehead"\<close> is read by subscript,
  and with an empty \<^verbatim>\<open>blocks\<close> the constructor ends with the \<^verbatim>\<open>KeyError\<close> for it.
\<close>

theorem optional_keys_counterexample:
  "MidasNet_init shape_sim ()
     (default_args\<lparr>arg_monodepth := PyBool False, arg_blocks := Map.empty\<rparr>)
   = Inl (KeyError ''widehead'')"
  by (simp add: sim_init_defs)

text \<open>
  Claim C3 as amended: for every \<^verbatim>\<open>blocks\<close> and every key \<open>k\<close> absent from it, the constructor
  ends as it does with \<open>k\<close> present at the value the absent key stands for (\<^verbatim>\<open>None\<close> for
  \<^verbatim>\<open>activation\<close>, \<^verbatim>\<open>hooks\<close> and \<^verbatim>\<open>aux\<close>, \<^verbatim>\<open>False\<close> for \<^verbatim>\<open>batch_norm\<close>, \<^verbatim>\<open>True\<close> for \<^verbatim>\<open>freeze_bn\<close>,
  \<^verbatim>\<open>"ignore"\<close> for \<^verbatim>\<open>use_readout\<close>, 1.0 for \<^verbatim>\<open>scale\<close>, 0.0 for \<^verbatim>\<open>shift\<close>): with the same
  exception, or with the same object up to the dictionary kept in \<^verbatim>\<open>self.blocks\<close>. The same
  holds for any value stored under \<^verbatim>\<open>expand\<close> or under a key outside the list, and, in depth
  mode, under \<^verbatim>\<open>widehead\<close> and \<^verbatim>\<open>widehead_hr\<close>.
\<close>

theorem absent_key_as_default:
  assumes "stands_for_absent a k v"
  shows "map_sum id forget_blocks
           (MidasNet_init T w0 (a\<lparr>arg_blocks := (arg_blocks a)(k \<mapsto> v)\<rparr>))
       = map_sum id forget_blocks (MidasNet_init T w0 a)"
  unfolding MidasNet_init_def forget_blocks_def absent_encoder_call[OF assms]
    absent_select_activation[OF assms] absent_make_output_conv[OF assms]
    absent_make_auxlayer[OF assms] freeze_pretrained_def absent_freeze_flag[OF assms]
    load_weights_blocks make_scratch_blocks
  by (simp add: absent_use_batch_norm[OF assms] absent_blocks_get[OF assms]
        split: sum.splits prod.splits)

text \<open>With an empty \<^verbatim>\<open>blocks\<close> in depth mode the constructor returns an object, and it is
  the object it returns with \<^verbatim>\<open>"scale": 1.0\<close> stored.\<close>

theorem absent_key_as_default_witness:
  "stands_for_absent (default_args\<lparr>arg_blocks := Map.empty\<rparr>) ''scale'' (PyFloat 1)
   \<and> map_sum id forget_blocks
        (MidasNet_init shape_sim () (default_args\<lparr>arg_blocks := [''scale'' \<mapsto> PyFloat 1]\<rparr>))
     = map_sum id forget_blocks
        (MidasNet_init shape_sim () (default_args\<lparr>arg_blocks := Map.empty\<rparr>))
   \<and> (\<exists>m. MidasNet_init shape_sim () (default_args\<lparr>arg_blocks := Map.empty\<rparr>) = Inr m)"
proof (intro conjI)
  show a: "stands_for_absent (default_args\<lparr>arg_blocks := Map.empty\<rparr>) ''scale'' (PyFloat 1)"
    by (simp add: stands_for_absent_def absent_default_def)
  show "map_sum id forget_blocks
        (MidasNet_init shape_sim () (default_args\<lparr>arg_blocks := [''scale'' \<mapsto> PyFloat 1]\<rparr>))
     = map_sum id forget_blocks
        (MidasNet_init shape_sim () (default_args\<lparr>arg_blocks := Map.empty\<rparr>))"
    using absent_key_as_default[OF a, of shape_sim "()"] by simp
  show "\<exists>m. MidasNet_init shape_sim () (default_args\<lparr>arg_blocks := Map.empty\<rparr>) = Inr m"
    by (simp add: sim_init_defs load_weights_def freeze_pretrained_def freeze_flag_def
          sim_modules_def)
qed

section \<open>Runs of the shape-level instance\<close>

text \<open>The constructor on the default arguments, and the forward pass of the object it
  returns on a batch of two images of 64 by 64 pixels, stage by stage.\<close>

lemma init_default: "MidasNet_init shape_sim () default_args = Inr sim_depth_net"
  by (simp add: sim_init_defs sim_depth_net_def sim_vit_backbone_def load_weights_def use_batch_norm_def
        freeze_pretrained_def freeze_flag_def sim_modules_def)

lemma sim_depth_net_fields [simp]:
  "channels_last sim_depth_net = PyBool False"
  "monodepth sim_depth_net = PyBool True"
  "auxlayer sim_depth_net = None"
  "scale sim_depth_net = PyFloat 1"
  "shift sim_depth_net = PyFloat 0"
  "weights sim_depth_net = ()"
  "pretrained sim_depth_net = sim_vit_backbone"
  "layer1_rn (scratch sim_depth_net) = (256, 1)"
  "layer2_rn (scratch sim_depth_net) = (256, 1)"
  "layer3_rn (scratch sim_depth_net) = (256, 1)"
  "layer4_rn (scratch sim_depth_net) = (256, 1)"
  "fb_features (refinenet4 (scratch sim_depth_net)) = 256"
  "fb_features (refinenet3 (scratch sim_depth_net)) = 256"
  "fb_features (refinenet2 (scratch sim_depth_net)) = 256"
  "fb_features (refinenet1 (scratch sim_depth_net)) = 256"
  "output_conv (scratch sim_depth_net) =
     [Conv2d 256 128 3 1 1 1 True, Interpolate 2 ''bilinear'' None, Conv2d 128 32 3 1 1 1 True,
      ReLU False, Conv2d 32 1 1 1 0 1 True, ReLU True, Identity]"
  by (simp_all add: sim_depth_net_def make_scratch_def make_refinenet_def sim_scratch_base_def
        default_args_def)

lemma sim_vit_backbone_fields [simp]:
  "model sim_vit_backbone = Some \<lparr>patch_size = Some (PyList [PyInt 16, PyInt 16])\<rparr>"
  "supported_backbone sim_vit_backbone"
  by (simp_all add: sim_vit_backbone_def supported_backbone_def)

lemma sim_aux_net_fields [simp]:
  "monodepth sim_aux_net = PyBool True"
  "auxlayer sim_aux_net =
     Some [Conv2d 256 256 3 1 1 1 False, BatchNorm2d 256, ReLU True, Dropout 0 False,
           Conv2d 256 150 1 1 0 1 True]"
  "channels_last sim_aux_net = PyBool False"
  "scale sim_aux_net = PyFloat 1"
  "shift sim_aux_net = PyFloat 0"
  "weights sim_aux_net = ()"
  "pretrained sim_aux_net = sim_vit_backbone"
  "scratch sim_aux_net = scratch sim_depth_net"
  by (simp_all add: sim_aux_net_def)

lemmas sim_run_defs =
  invoke_def prim_def getattr_def local_var_def ret_def raise_def Let_def
  shape_sim_def sim_call_def sim_opaque_def sim_layer_def sim_fusion_def
  sim_forward_vit_def sim_scalar_op_def sim_interpolate_def sim_squeeze_def sim_contiguous_def
  squeeze_shape_def conv_extent_def

lemma sim_features:
  assumes "pretrained m = sim_vit_backbone"
  shows "forward_features shape_sim m [2, 3, 64, 64]
       = ([], Inr (Some [2, 256, 16, 16], Some [2, 512, 8, 8], Some [2, 768, 4, 4],
                   Some [2, 768, 2, 2]))"
  by (simp add: forward_features_def assms sim_run_defs)

lemma sim_decoder:
  assumes "scratch m = scratch sim_depth_net"
  shows "forward_decoder shape_sim m
           (Some [2, 256, 16, 16], Some [2, 512, 8, 8], Some [2, 768, 4, 4], Some [2, 768, 2, 2])
       = ([Call ''scratch.layer1_rn'' (Scratch_layer (256, 1)) [[2, 256, 16, 16]]
             (Inr [2, 256, 16, 16]),
           Call ''scratch.layer2_rn'' (Scratch_layer (256, 1)) [[2, 512, 8, 8]]
             (Inr [2, 256, 8, 8]),
           Call ''scratch.layer3_rn'' (Scratch_layer (256, 1)) [[2, 768, 4, 4]]
             (Inr [2, 256, 4, 4]),
           Call ''scratch.layer4_rn'' (Scratch_layer (256, 1)) [[2, 768, 2, 2]]
             (Inr [2, 256, 2, 2]),
           Call ''scratch.refinenet4''
             (FeatureFusionBlock_custom (refinenet4 (scratch sim_depth_net)))
             [[2, 256, 2, 2]] (Inr [2, 256, 4, 4]),
           Call ''scratch.refinenet3''
             (FeatureFusionBlock_custom (refinenet3 (scratch sim_depth_net)))
             [[2, 256, 4, 4], [2, 256, 4, 4]] (Inr [2, 256, 8, 8]),
           Call ''scratch.refinenet2''
             (FeatureFusionBlock_custom (refinenet2 (scratch sim_depth_net)))
             [[2, 256, 8, 8], [2, 256, 8, 8]] (Inr [2, 256, 16, 16]),
           Call ''scratch.refinenet1''
             (FeatureFusionBlock_custom (refinenet1 (scratch sim_depth_net)))
             [[2, 256, 16, 16], [2, 256, 16, 16]] (Inr [2, 256, 32, 32])],
          Inr ([2, 256, 32, 32], [2, 256, 16, 16]))"
  by (simp add: forward_decoder_def assms sim_run_defs)


lemma sim_head_depth:
  "forward_head shape_sim sim_depth_net ([2, 256, 32, 32], [2, 256, 16, 16])
     = ([Call ''scratch.output_conv'' (Sequential (output_conv (scratch sim_depth_net)))
           [[2, 256, 32, 32]] (Inr [2, 1, 64, 64])],
        Inr (Single [2, 64, 64]))"
  by (simp add: forward_head_def sim_run_defs)

lemma sim_head_aux:
  "forward_head shape_sim sim_aux_net ([2, 256, 32, 32], [2, 256, 16, 16])
     = ([Call ''scratch.output_conv'' (Sequential (output_conv (scratch sim_depth_net)))
           [[2, 256, 32, 32]] (Inr [2, 1, 64, 64]),
         Call ''auxlayer'' (Sequential (the (auxlayer sim_aux_net)))
           [[2, 256, 16, 16]] (Inr [2, 150, 16, 16])],
        Inr (WithAux [2, 1, 64, 64] [2, 150, 64, 64]))"
  by (simp add: forward_head_def sim_run_defs)

lemma sim_forward_depth:
  "snd (forward shape_sim sim_depth_net [2, 3, 64, 64]) = Inr (Single [2, 64, 64])"
  by (simp add: forward_def forward_body_def sim_features sim_decoder sim_head_depth)

lemma sim_forward_aux:
  "snd (forward shape_sim sim_aux_net [2, 3, 64, 64])
     = Inr (WithAux [2, 1, 64, 64] [2, 150, 64, 64])"
  by (simp add: forward_def forward_body_def sim_features sim_decoder sim_head_aux)

lemma sim_forward_bad_input:
  "forward shape_sim sim_depth_net [2, 4, 64, 64] = ([], Inl (PrimitiveError ''channel mismatch''))"
  by (simp add: forward_def forward_body_def forward_features_def sim_run_defs)

section \<open>Failures of the forward pass\<close>

lemma bnd_failure:
  assumes "snd (bnd m f) = Inl e"
    and "\<And>e. snd m = Inl e \<Longrightarrow> P e"
    and "\<And>v e. snd m = Inr v \<Longrightarrow> snd (f v) = Inl e \<Longrightarrow> P e"
  shows "P e"
  using assms by (auto simp add: snd_bnd_Inl)

lemma features_failure:
  assumes "supported_backbone (pretrained m)" "snd (forward_features T m x) = Inl e"
  shows "\<exists>msg. e = PrimitiveError msg"
  using assms
  by (auto simp add: supported_backbone_def forward_features_def Let_def snd_bnd_Inl getattr_def
        split: option.splits prod.splits)

lemma features_bound:
  assumes "supported_backbone (pretrained m)" "snd (forward_features T m x) = Inr ls"
  shows "\<exists>l1 l2 l3 l4. ls = (Some l1, Some l2, Some l3, Some l4)"
  using assms
  by (auto simp add: supported_backbone_def forward_features_def Let_def snd_bnd_Inr getattr_def
        split: option.splits prod.splits)

lemma decoder_failure:
  assumes "snd (forward_decoder T m (Some l1, Some l2, Some l3, Some l4)) = Inl e"
  shows "\<exists>msg. e = PrimitiveError msg"
  using assms
  by (auto simp add: forward_decoder_def Let_def snd_bnd_Inl local_var_def)

lemma head_failure:
  assumes "snd (forward_head T m ps) = Inl e"
  shows "\<exists>msg. e = PrimitiveError msg"
  using assms
  by (auto simp add: forward_head_def Let_def snd_bnd_Inl
        split: option.splits prod.splits if_splits)

lemma body_failure:
  assumes "supported_backbone (pretrained m)" and "snd (forward_body T m x) = Inl e"
  shows "\<exists>msg. e = PrimitiveError msg"
  using assms(2) unfolding forward_body_def
proof (rule bnd_failure)
  fix e' assume "snd (forward_features T m x) = Inl e'"
  with assms(1) show "\<exists>msg. e' = PrimitiveError msg" by (rule features_failure)
next
  fix ls e'
  assume ls: "snd (forward_features T m x) = Inr ls"
    and "snd (bnd (forward_decoder T m ls) (forward_head T m)) = Inl e'"
  from this(2) show "\<exists>msg. e' = PrimitiveError msg"
  proof (rule bnd_failure)
    fix e'' assume "snd (forward_decoder T m ls) = Inl e''"
    with features_bound[OF assms(1) ls] show "\<exists>msg. e'' = PrimitiveError msg"
      by (auto dest: decoder_failure)
  next
    fix ps e'' assume "snd (forward_head T m ps) = Inl e''"
    then show "\<exists>msg. e'' = PrimitiveError msg" by (rule head_failure)
  qed
qed


text \<open>
  Claim C7: the forward pass validates nothing itself. On a backbone object of one of the two
  kinds it has a branch for, whatever the input is, a pass that does not return ends with an
  exception raised inside a collaborator: the backbone, a submodule or a tensor operation.
\<close>

theorem forward_failures_are_primitive:
  assumes "supported_backbone (pretrained m)" and "snd (forward T m x) = Inl e"
  shows "\<exists>msg. e = PrimitiveError msg"
  using assms(2) unfolding forward_def
proof (rule bnd_failure)
  fix e'
  assume "snd (if py_eq (channels_last m) (PyBool True)
               then bnd (prim (contiguous T x)) (\<lambda>_. ret ()) else ret ()) = Inl e'"
  then show "\<exists>msg. e' = PrimitiveError msg"
    by (auto simp add: snd_bnd_Inl split: if_splits)
next
  fix u :: unit and e'
  assume "snd (forward_body T m x) = Inl e'"
  with assms(1) show "\<exists>msg. e' = PrimitiveError msg" by (rule body_failure)
qed

text \<open>A pass on an input with four channels: the hook-based extraction raises, and that is
  the exception the pass ends with.\<close>

theorem forward_failures_are_primitive_witness:
  "supported_backbone (pretrained sim_depth_net)
   \<and> snd (forward shape_sim sim_depth_net [2, 4, 64, 64])
       = Inl (PrimitiveError ''channel mismatch'')
   \<and> (\<exists>e msg. snd (forward shape_sim sim_depth_net [2, 4, 64, 64]) = Inl e
         \<and> e = PrimitiveError msg)"
proof -
  have sup: "supported_backbone (pretrained sim_depth_net)" by simp
  have run: "snd (forward shape_sim sim_depth_net [2, 4, 64, 64])
               = Inl (PrimitiveError ''channel mismatch'')"
    by (simp add: sim_forward_bad_input)
  from forward_failures_are_primitive[OF sup run] sup run show ?thesis by simp
qed

section \<open>The feature maps of the backbone\<close>

text \<open>
  The constructor stores the object \<^verbatim>\<open>_make_encoder\<close> returned and changes only its modules:
  the backbone of a constructed model is of one of the two kinds exactly when the object
  \<^verbatim>\<open>_make_encoder\<close> returned is.
\<close>

lemma init_backbone_kind:
  assumes "MidasNet_init T w0 a = Inr m"
  shows "\<exists>pre sb. encoder_call T a = Inr (pre, sb)
           \<and> supported_backbone (pretrained m) = supported_backbone pre"
proof -
  from init_Inr[OF assms] obtain pre sb ms where
    "encoder_call T a = Inr (pre, sb)" "pretrained m = pre\<lparr>modules := ms\<rparr>"
    by force
  then show ?thesis by (simp add: supported_backbone_def split: option.splits)
qed


lemma sim_resnet_backbone_fields [simp]:
  "model sim_resnet_backbone = None"
  "layer1 sim_resnet_backbone = Some (256, 4)"
  "layer2 sim_resnet_backbone = Some (512, 2)"
  "layer3 sim_resnet_backbone = Some (1024, 2)"
  "layer4 sim_resnet_backbone = Some (2048, 2)"
  "supported_backbone sim_resnet_backbone"
  by (simp_all add: sim_resnet_backbone_def supported_backbone_def)





text \<open>
  The contract is needed. An object with a \<^verbatim>\<open>model\<close> that has no \<^verbatim>\<open>patch_size\<close> is of neither
  kind: lines 247-255 enter the outer branch, skip the inner one, which has no \<^verbatim>\<open>else\<close>, and
  assign nothing, so line 257 reads a local variable that was never assigned. Nothing in the
  sources makes such an object.
\<close>

lemma model_without_patch_size_unbound:
  "forward T (m\<lparr>channels_last := PyBool False,
                pretrained := p\<lparr>model := Some \<lparr>patch_size = None\<rparr>\<rparr>\<rparr>) x
     = ([], Inl (UnboundLocalError ''layer_1''))"
  by (simp add: forward_def forward_body_def forward_features_def forward_decoder_def
        local_var_def raise_def ret_def Let_def)



section \<open>The memory format flag\<close>

lemma init_channels_last:
  "MidasNet_init T w0 (a\<lparr>arg_channels_last := c\<rparr>)
     = map_sum id (\<lambda>m. m\<lparr>channels_last := c\<rparr>) (MidasNet_init T w0 a)"
proof -
  let ?a = "a\<lparr>arg_channels_last := c\<rparr>"
  have eqs: "encoder_call T ?a = encoder_call T a" "stored_blocks ?a = stored_blocks a"
    "load_weights T ?a w0 = load_weights T a w0"
    "\<And>sb act u head. make_scratch ?a sb act u head = make_scratch a sb act u head"
    by (simp_all add: encoder_call_def stored_blocks_def load_weights_def
          make_scratch_def make_refinenet_def cong: option.case_cong)
  have head: "\<And>b act. make_output_conv ?a b act = make_output_conv a b act"
    by (rule make_output_conv_cong) simp_all
  show ?thesis
    unfolding MidasNet_init_def eqs head
    by (simp split: sum.splits prod.splits)
qed

lemma stages_channels_last [simp]:
  "forward_features T (m\<lparr>channels_last := c\<rparr>) x = forward_features T m x"
  "forward_decoder T (m\<lparr>channels_last := c\<rparr>) ls = forward_decoder T m ls"
  "forward_head T (m\<lparr>channels_last := c\<rparr>) ps = forward_head T m ps"
  by (simp_all add: forward_features_def forward_decoder_def forward_head_def
        cong: option.case_cong if_cong prod.case_cong)

lemma head_channels_last [simp]:
  "forward_head T (m\<lparr>channels_last := c\<rparr>) = forward_head T m"
  by (rule ext) simp

lemma body_channels_last [simp]:
  "forward_body T (m\<lparr>channels_last := c\<rparr>) x = forward_body T m x"
  by (simp add: forward_body_def)

lemma forward_conversion:
  "forward T m x =
     (if py_eq (channels_last m) (PyBool True)
      then (case contiguous T x of
              Inl msg \<Rightarrow> ([], Inl (PrimitiveError msg))
            | Inr _ \<Rightarrow> forward_body T m x)
      else forward_body T m x)"
  by (simp add: forward_def prim_def raise_def split: sum.splits)

text \<open>
  Claim C8: take the two objects the constructor returns for the same arguments and weights
  with \<^verbatim>\<open>channels_last=True\<close> and with \<^verbatim>\<open>channels_last=False\<close>. On every input on which
  the memory format conversion itself does not raise, the two forward passes are the same
  run: the same calls, and the same value or exception. And whenever the pass with the flag
  set returns a value, the pass without it returns that value.
\<close>

theorem channels_last_no_influence:
  assumes "MidasNet_init T w0 (a\<lparr>arg_channels_last := PyBool True\<rparr>) = Inr m1"
    and "MidasNet_init T w0 (a\<lparr>arg_channels_last := PyBool False\<rparr>) = Inr m2"
  shows "(\<forall>y. contiguous T x = Inr y \<longrightarrow> forward T m1 x = forward T m2 x)
       \<and> (\<forall>r. snd (forward T m1 x) = Inr r \<longrightarrow> snd (forward T m2 x) = Inr r)"
proof -
  obtain m where m0: "MidasNet_init T w0 a = Inr m"
    using assms(1) unfolding init_channels_last by (cases "MidasNet_init T w0 a") simp_all
  have m: "m1 = m\<lparr>channels_last := PyBool True\<rparr>" "m2 = m\<lparr>channels_last := PyBool False\<rparr>"
    using assms unfolding init_channels_last m0 by simp_all
  have f2: "forward T m2 x = forward_body T m x"
    unfolding m forward_conversion by simp
  have f1: "forward T m1 x =
      (case contiguous T x of
         Inl msg \<Rightarrow> ([], Inl (PrimitiveError msg))
       | Inr _ \<Rightarrow> forward_body T m x)"
    unfolding m forward_conversion by (simp cong: sum.case_cong)
  show ?thesis
    unfolding f1 f2 by (cases "contiguous T x") simp_all
qed

text \<open>The two objects for the default arguments, on a well-formed batch: the same run, which
  returns the depth map.\<close>

theorem channels_last_no_influence_witness:
  "MidasNet_init shape_sim () (default_args\<lparr>arg_channels_last := PyBool True\<rparr>)
     = Inr (sim_depth_net\<lparr>channels_last := PyBool True\<rparr>)
   \<and> MidasNet_init shape_sim () (default_args\<lparr>arg_channels_last := PyBool False\<rparr>)
     = Inr sim_depth_net
   \<and> contiguous shape_sim [2, 3, 64, 64] = Inr [2, 3, 64, 64]
   \<and> forward shape_sim (sim_depth_net\<lparr>channels_last := PyBool True\<rparr>) [2, 3, 64, 64]
     = forward shape_sim sim_depth_net [2, 3, 64, 64]
   \<and> snd (forward shape_sim sim_depth_net [2, 3, 64, 64]) = Inr (Single [2, 64, 64])"
proof -
  have m1: "MidasNet_init shape_sim () (default_args\<lparr>arg_channels_last := PyBool True\<rparr>)
     = Inr (sim_depth_net\<lparr>channels_last := PyBool True\<rparr>)"
    by (simp add: init_channels_last init_default)
  have m2: "MidasNet_init shape_sim () (default_args\<lparr>arg_channels_last := PyBool False\<rparr>)
     = Inr sim_depth_net"
    by (simp add: init_channels_last init_default sim_depth_net_def)
  have c: "contiguous shape_sim [2, 3, 64, 64] = Inr [2, 3, 64, 64]"
    by (simp add: shape_sim_def sim_contiguous_def)
  from channels_last_no_influence[OF m1 m2, of "[2, 3, 64, 64]"] c
  have "forward shape_sim (sim_depth_net\<lparr>channels_last := PyBool True\<rparr>) [2, 3, 64, 64]
     = forward shape_sim sim_depth_net [2, 3, 64, 64]"
    by blast
  with m1 m2 c sim_forward_depth show ?thesis by simp
qed

section \<open>Runs that return\<close>

lemma bnd_eq_Inr:
  "bnd m f = (tr, Inr r) \<longleftrightarrow> (\<exists>l1 v l2. m = (l1, Inr v) \<and> f v = (l2, Inr r) \<and> tr = l1 @ l2)"
  by (cases m; cases "snd m") (auto simp add: bnd_def prod_eq_iff)

lemma invoke_eq_Inr:
  "invoke T w name md args = (tr, Inr v)
     \<longleftrightarrow> call T w name md args = Inr v \<and> tr = [Call name md args (Inr v)]"
  by (cases "call T w name md args") (auto simp add: invoke_def Let_def)

lemma prim_eq_Inr: "prim r = (tr, Inr v) \<longleftrightarrow> r = Inr v \<and> tr = []"
  by (cases r) (auto simp add: prim_def ret_def raise_def)

lemma ret_eq: "ret v = (tr, r) \<longleftrightarrow> tr = [] \<and> r = Inr v"
  by (auto simp add: ret_def)

lemma raise_eq: "raise e = (tr, r) \<longleftrightarrow> tr = [] \<and> r = Inl e"
  by (auto simp add: raise_def)

lemmas run_Inr = bnd_eq_Inr invoke_eq_Inr prim_eq_Inr ret_eq raise_eq

lemma forward_head_plain:
  assumes "forward_head T m (p1, p2) = (tr, Inr r)" and "auxlayer m = None"
  shows "\<exists>out0 scaled out.
      call T (weights m) ''scratch.output_conv'' (Sequential (output_conv (scratch m))) [p1] = Inr out0
    \<and> tensor_mul T out0 (scale m) = Inr scaled
    \<and> tensor_add T scaled (shift m) = Inr out
    \<and> tr = [Call ''scratch.output_conv'' (Sequential (output_conv (scratch m))) [p1] (Inr out0)]
    \<and> (if py_eq (monodepth m) (PyBool True)
       then (\<exists>sq. squeeze T out 1 = Inr sq \<and> r = Single sq)
       else r = Single out)"
  using assms
  by (auto simp add: forward_head_def Let_def run_Inr split: if_splits)

lemma forward_head_aux:
  assumes "forward_head T m (p1, p2) = (tr, Inr r)" and "auxlayer m = Some aux"
  shows "\<exists>out0 scaled out auxout0 auxout.
      call T (weights m) ''scratch.output_conv'' (Sequential (output_conv (scratch m))) [p1] = Inr out0
    \<and> tensor_mul T out0 (scale m) = Inr scaled
    \<and> tensor_add T scaled (shift m) = Inr out
    \<and> call T (weights m) ''auxlayer'' (Sequential aux) [p2] = Inr auxout0
    \<and> interpolate T auxout0 (drop 2 (tensor_shape T out)) ''bilinear'' True = Inr auxout
    \<and> r = WithAux out auxout
    \<and> tr = [Call ''scratch.output_conv'' (Sequential (output_conv (scratch m))) [p1] (Inr out0),
             Call ''auxlayer'' (Sequential aux) [p2] (Inr auxout0)]"
  using assms
  by (auto simp add: forward_head_def Let_def run_Inr)

lemma forward_decoder_Inr:
  assumes "forward_decoder T m ls = (tr, Inr ps)"
  shows "\<exists>l1 l2 l3 l4 q1 q2 q3 q4 p4 p3 p2 p1.
      ls = (Some l1, Some l2, Some l3, Some l4) \<and> ps = (p1, p2)
    \<and> tr =
       [Call ''scratch.layer1_rn'' (Scratch_layer (layer1_rn (scratch m))) [l1] (Inr q1),
        Call ''scratch.layer2_rn'' (Scratch_layer (layer2_rn (scratch m))) [l2] (Inr q2),
        Call ''scratch.layer3_rn'' (Scratch_layer (layer3_rn (scratch m))) [l3] (Inr q3),
        Call ''scratch.layer4_rn'' (Scratch_layer (layer4_rn (scratch m))) [l4] (Inr q4),
        Call ''scratch.refinenet4'' (FeatureFusionBlock_custom (refinenet4 (scratch m))) [q4] (Inr p4),
        Call ''scratch.refinenet3'' (FeatureFusionBlock_custom (refinenet3 (scratch m))) [p4, q3] (Inr p3),
        Call ''scratch.refinenet2'' (FeatureFusionBlock_custom (refinenet2 (scratch m))) [p3, q2] (Inr p2),
        Call ''scratch.refinenet1'' (FeatureFusionBlock_custom (refinenet1 (scratch m))) [p2, q1] (Inr p1)]"
  using assms
  by (cases ls) (auto simp add: forward_decoder_def Let_def run_Inr local_var_def split: option.splits)

lemma forward_Inr:
  assumes "forward T m x = (tr, Inr r)"
  shows "forward_body T m x = (tr, Inr r)"
  using assms
  by (auto simp add: forward_def run_Inr split: if_splits)

lemma forward_body_Inr:
  assumes "forward_body T m x = (tr, Inr r)"
  shows "\<exists>tf ls td ps th.
      forward_features T m x = (tf, Inr ls)
    \<and> forward_decoder T m ls = (td, Inr ps)
    \<and> forward_head T m ps = (th, Inr r)
    \<and> tr = tf @ td @ th"
  using assms by (auto simp add: forward_body_def run_Inr)


section \<open>The affine transform\<close>

text \<open>
  Claim C10: in every mode, a forward pass that returns has multiplied the result of the
  output head by \<^verbatim>\<open>self.scale\<close> and added \<^verbatim>\<open>self.shift\<close>, and what it returns is built from
  that tensor \<open>out\<close>: the pair of \<open>out\<close> and the auxiliary output when the auxiliary head
  exists, \<open>out\<close> squeezed in depth mode, \<open>out\<close> itself in segmentation mode. The auxiliary
  output is the result of the auxiliary head interpolated to the spatial shape of \<open>out\<close>, with
  no scale and no shift applied to it.
\<close>

theorem affine_transform_every_mode:
  assumes "forward T m x = (tr, Inr r)"
  shows "\<exists>path_1 path_2 out0 scaled out.
      Call ''scratch.output_conv'' (Sequential (output_conv (scratch m))) [path_1] (Inr out0)
        \<in> set tr
    \<and> tensor_mul T out0 (scale m) = Inr scaled
    \<and> tensor_add T scaled (shift m) = Inr out
    \<and> (case auxlayer m of
          Some aux \<Rightarrow>
            (\<exists>auxout0 auxout.
                Call ''auxlayer'' (Sequential aux) [path_2] (Inr auxout0) \<in> set tr
              \<and> interpolate T auxout0 (drop 2 (tensor_shape T out)) ''bilinear'' True = Inr auxout
              \<and> r = WithAux out auxout)
        | None \<Rightarrow>
            if py_eq (monodepth m) (PyBool True)
            then (\<exists>sq. squeeze T out 1 = Inr sq \<and> r = Single sq)
            else r = Single out)"
proof -
  from forward_body_Inr[OF forward_Inr[OF assms]] obtain tf ls td ps th where
    head: "forward_head T m ps = (th, Inr r)" and tr: "tr = tf @ td @ th"
    by blast
  obtain p1 p2 where ps: "ps = (p1, p2)" by (cases ps)
  show ?thesis
  proof (cases "auxlayer m")
    case None
    from forward_head_plain[OF head[unfolded ps] None] obtain out0 scaled out where
      "tensor_mul T out0 (scale m) = Inr scaled" "tensor_add T scaled (shift m) = Inr out"
      "th = [Call ''scratch.output_conv'' (Sequential (output_conv (scratch m))) [p1] (Inr out0)]"
      "if py_eq (monodepth m) (PyBool True)
       then (\<exists>sq. squeeze T out 1 = Inr sq \<and> r = Single sq)
       else r = Single out"
      by blast
    with None tr show ?thesis
      by (rule_tac x = p1 in exI, rule_tac x = p2 in exI, rule_tac x = out0 in exI,
          rule_tac x = scaled in exI, rule_tac x = out in exI) simp
  next
    case (Some aux)
    from forward_head_aux[OF head[unfolded ps] Some] obtain out0 scaled out auxout0 auxout where
      "tensor_mul T out0 (scale m) = Inr scaled" "tensor_add T scaled (shift m) = Inr out"
      "interpolate T auxout0 (drop 2 (tensor_shape T out)) ''bilinear'' True = Inr auxout"
      "r = WithAux out auxout"
      "th = [Call ''scratch.output_conv'' (Sequential (output_conv (scratch m))) [p1] (Inr out0),
             Call ''auxlayer'' (Sequential aux) [p2] (Inr auxout0)]"
      by blast
    with Some tr show ?thesis
      by (rule_tac x = p1 in exI, rule_tac x = p2 in exI, rule_tac x = out0 in exI,
          rule_tac x = scaled in exI, rule_tac x = out in exI) auto
  qed
qed

text \<open>A pass of the object with an auxiliary head: it returns the pair, whose second part
  has the spatial shape of the first.\<close>

theorem affine_transform_every_mode_witness:
  "snd (forward shape_sim sim_aux_net [2, 3, 64, 64])
     = Inr (WithAux [2, 1, 64, 64] [2, 150, 64, 64])
   \<and> (\<exists>path_1 path_2 out0 scaled out auxout0 auxout.
        Call ''scratch.output_conv'' (Sequential (output_conv (scratch sim_aux_net)))
            [path_1] (Inr out0)
          \<in> set (fst (forward shape_sim sim_aux_net [2, 3, 64, 64]))
      \<and> tensor_mul shape_sim out0 (scale sim_aux_net) = Inr scaled
      \<and> tensor_add shape_sim scaled (shift sim_aux_net) = Inr out
      \<and> Call ''auxlayer'' (Sequential (the (auxlayer sim_aux_net))) [path_2] (Inr auxout0)
          \<in> set (fst (forward shape_sim sim_aux_net [2, 3, 64, 64]))
      \<and> interpolate shape_sim auxout0 (drop 2 (tensor_shape shape_sim out)) ''bilinear'' True
          = Inr auxout
      \<and> WithAux [2, 1, 64, 64] [2, 150, 64, 64] = WithAux out auxout)"
proof -
  have run: "forward shape_sim sim_aux_net [2, 3, 64, 64]
      = (fst (forward shape_sim sim_aux_net [2, 3, 64, 64]),
         Inr (WithAux [2, 1, 64, 64] [2, 150, 64, 64]))"
    by (simp add: prod_eq_iff sim_forward_aux)
  from affine_transform_every_mode[OF run] sim_forward_aux show ?thesis
    by simp
qed

section \<open>The order of the decoder\<close>

lemma fst_bnd: "fst (bnd m f) = fst m @ (case snd m of Inl e \<Rightarrow> [] | Inr v \<Rightarrow> fst (f v))"
  by (cases "snd m") (simp_all add: bnd_def)

lemma snd_bnd: "snd (bnd m f) = (case snd m of Inl e \<Rightarrow> Inl e | Inr v \<Rightarrow> snd (f v))"
  by (cases "snd m") (simp_all add: bnd_def)

lemma snd_invoke:
  "snd (invoke T w name md args) =
     (case call T w name md args of Inl msg \<Rightarrow> Inl (PrimitiveError msg) | Inr v \<Rightarrow> Inr v)"
  by (simp add: invoke_def Let_def)

lemma features_no_decoder_event:
  "filter decoder_event (fst (forward_features T m x)) = []"
  by (simp add: forward_features_def Let_def fst_bnd snd_bnd snd_invoke getattr_def decoder_event_def
        split: option.splits sum.splits prod.splits)

lemma head_no_decoder_event:
  "filter decoder_event (fst (forward_head T m ps)) = []"
  by (simp add: forward_head_def Let_def fst_bnd snd_bnd snd_invoke decoder_event_def
        split: option.splits sum.splits prod.splits if_splits)

lemma features_all_or_none:
  assumes "snd (forward_features T m x) = Inr ls"
  shows "ls = (None, None, None, None) \<or> (\<exists>l1 l2 l3 l4. ls = (Some l1, Some l2, Some l3, Some l4))"
  using assms
  by (auto simp add: forward_features_def Let_def snd_bnd_Inr getattr_def
        split: option.splits prod.splits)

lemma decoder_unbound:
  "forward_decoder T m (None, None, None, None) = ([], Inl (UnboundLocalError ''layer_1''))"
  by (simp add: forward_decoder_def local_var_def raise_def Let_def)

lemma chain_prefixI:
  assumes "tr = take n (decoder_chain m la lb lc ld qa qb qc qd pd pc pb pa) @ tail"
    and "tail = [] \<or> (\<exists>msg. n < 8
           \<and> tail = [failed (decoder_chain m la lb lc ld qa qb qc qd pd pc pb pa ! n) msg])"
    and "ok \<longrightarrow> n = 8 \<and> tail = []"
  shows "\<exists>q1 q2 q3 q4 p4 p3 p2 p1 n tail.
      tr = take n (decoder_chain m la lb lc ld q1 q2 q3 q4 p4 p3 p2 p1) @ tail
    \<and> (tail = [] \<or> (\<exists>msg. n < 8
           \<and> tail = [failed (decoder_chain m la lb lc ld q1 q2 q3 q4 p4 p3 p2 p1 ! n) msg]))
    \<and> (ok \<longrightarrow> n = 8 \<and> tail = [])"
  using assms by blast

lemma decoder_trace:
  "\<exists>q1 q2 q3 q4 p4 p3 p2 p1 n tail.
      fst (forward_decoder T m (Some l1, Some l2, Some l3, Some l4))
        = take n (decoder_chain m l1 l2 l3 l4 q1 q2 q3 q4 p4 p3 p2 p1) @ tail
    \<and> (tail = [] \<or> (\<exists>msg. n < 8
           \<and> tail = [failed (decoder_chain m l1 l2 l3 l4 q1 q2 q3 q4 p4 p3 p2 p1 ! n) msg]))
    \<and> ((\<exists>ps. snd (forward_decoder T m (Some l1, Some l2, Some l3, Some l4)) = Inr ps)
         \<longrightarrow> n = 8 \<and> tail = [])"

proof (cases "call T (weights m) ''scratch.layer1_rn'' (Scratch_layer (layer1_rn (scratch m))) [l1]")
  case (Inl msg)
  show ?thesis
    by (rule chain_prefixI[where qa = l1 and qb = l1 and qc = l1 and qd = l1 and pd = l1 and pc = l1 and pb = l1 and pa = l1 and n = 0 and tail = "[Call ''scratch.layer1_rn'' (Scratch_layer (layer1_rn (scratch m))) [l1] (Inl msg)]"])
       (simp_all add: Inl forward_decoder_def decoder_chain_def failed_def Let_def fst_bnd snd_bnd snd_invoke local_var_def)
next
  case c1: (Inr q1)
  show ?thesis
  proof (cases "call T (weights m) ''scratch.layer2_rn'' (Scratch_layer (layer2_rn (scratch m))) [l2]")
    case (Inl msg)
    show ?thesis
      by (rule chain_prefixI[where qa = q1 and qb = l1 and qc = l1 and qd = l1 and pd = l1 and pc = l1 and pb = l1 and pa = l1 and n = 1 and tail = "[Call ''scratch.layer2_rn'' (Scratch_layer (layer2_rn (scratch m))) [l2] (Inl msg)]"])
         (simp_all add: c1 Inl forward_decoder_def decoder_chain_def failed_def Let_def fst_bnd snd_bnd snd_invoke local_var_def)
  next
    case c2: (Inr q2)
    show ?thesis
    proof (cases "call T (weights m) ''scratch.layer3_rn'' (Scratch_layer (layer3_rn (scratch m))) [l3]")
      case (Inl msg)
      show ?thesis
        by (rule chain_prefixI[where qa = q1 and qb = q2 and qc = l1 and qd = l1 and pd = l1 and pc = l1 and pb = l1 and pa = l1 and n = 2 and tail = "[Call ''scratch.layer3_rn'' (Scratch_layer (layer3_rn (scratch m))) [l3] (Inl msg)]"])
           (simp_all add: c1 c2 Inl forward_decoder_def decoder_chain_def failed_def Let_def fst_bnd snd_bnd snd_invoke local_var_def)
    next
      case c3: (Inr q3)
      show ?thesis
      proof (cases "call T (weights m) ''scratch.layer4_rn'' (Scratch_layer (layer4_rn (scratch m))) [l4]")
        case (Inl msg)
        show ?thesis
          by (rule chain_prefixI[where qa = q1 and qb = q2 and qc = q3 and qd = l1 and pd = l1 and pc = l1 and pb = l1 and pa = l1 and n = 3 and tail = "[Call ''scratch.layer4_rn'' (Scratch_layer (layer4_rn (scratch m))) [l4] (Inl msg)]"])
             (simp_all add: c1 c2 c3 Inl forward_decoder_def decoder_chain_def failed_def Let_def fst_bnd snd_bnd snd_invoke local_var_def)
      next
        case c4: (Inr q4)
        show ?thesis
        proof (cases "call T (weights m) ''scratch.refinenet4'' (FeatureFusionBlock_custom (refinenet4 (scratch m))) [q4]")
          case (Inl msg)
          show ?thesis
            by (rule chain_prefixI[where qa = q1 and qb = q2 and qc = q3 and qd = q4 and pd = l1 and pc = l1 and pb = l1 and pa = l1 and n = 4 and tail = "[Call ''scratch.refinenet4'' (FeatureFusionBlock_custom (refinenet4 (scratch m))) [q4] (Inl msg)]"])
               (simp_all add: c1 c2 c3 c4 Inl forward_decoder_def decoder_chain_def failed_def Let_def fst_bnd snd_bnd snd_invoke local_var_def)
        next
          case c5: (Inr p4)
          show ?thesis
          proof (cases "call T (weights m) ''scratch.refinenet3'' (FeatureFusionBlock_custom (refinenet3 (scratch m))) [p4, q3]")
            case (Inl msg)
            show ?thesis
              by (rule chain_prefixI[where qa = q1 and qb = q2 and qc = q3 and qd = q4 and pd = p4 and pc = l1 and pb = l1 and pa = l1 and n = 5 and tail = "[Call ''scratch.refinenet3'' (FeatureFusionBlock_custom (refinenet3 (scratch m))) [p4, q3] (Inl msg)]"])
                 (simp_all add: c1 c2 c3 c4 c5 Inl forward_decoder_def decoder_chain_def failed_def Let_def fst_bnd snd_bnd snd_invoke local_var_def)
          next
            case c6: (Inr p3)
            show ?thesis
            proof (cases "call T (weights m) ''scratch.refinenet2'' (FeatureFusionBlock_custom (refinenet2 (scratch m))) [p3, q2]")
              case (Inl msg)
              show ?thesis
                by (rule chain_prefixI[where qa = q1 and qb = q2 and qc = q3 and qd = q4 and pd = p4 and pc = p3 and pb = l1 and pa = l1 and n = 6 and tail = "[Call ''scratch.refinenet2'' (FeatureFusionBlock_custom (refinenet2 (scratch m))) [p3, q2] (Inl msg)]"])
                   (simp_all add: c1 c2 c3 c4 c5 c6 Inl forward_decoder_def decoder_chain_def failed_def Let_def fst_bnd snd_bnd snd_invoke local_var_def)
            next
              case c7: (Inr p2)
              show ?thesis
              proof (cases "call T (weights m) ''scratch.refinenet1'' (FeatureFusionBlock_custom (refinenet1 (scratch m))) [p2, q1]")
                case (Inl msg)
                show ?thesis
                  by (rule chain_prefixI[where qa = q1 and qb = q2 and qc = q3 and qd = q4 and pd = p4 and pc = p3 and pb = p2 and pa = l1 and n = 7 and tail = "[Call ''scratch.refinenet1'' (FeatureFusionBlock_custom (refinenet1 (scratch m))) [p2, q1] (Inl msg)]"])
                     (simp_all add: c1 c2 c3 c4 c5 c6 c7 Inl forward_decoder_def decoder_chain_def failed_def Let_def fst_bnd snd_bnd snd_invoke local_var_def)
              next
                case c8: (Inr p1)
                show ?thesis
                  by (rule chain_prefixI[where qa = q1 and qb = q2 and qc = q3 and qd = q4 and pd = p4 and pc = p3 and pb = p2 and pa = p1 and n = 8 and tail = "[]"])
                     (simp_all add: c1 c2 c3 c4 c5 c6 c7 c8 forward_decoder_def decoder_chain_def failed_def Let_def fst_bnd snd_bnd snd_invoke local_var_def)
              qed
            qed
          qed
        qed
      qed
    qed
  qed
qed

lemma decoder_only_decoder_events:
  "filter decoder_event (fst (forward_decoder T m ls)) = fst (forward_decoder T m ls)"
  by (cases ls)
     (simp add: forward_decoder_def Let_def fst_bnd snd_bnd snd_invoke local_var_def
        decoder_event_def split: option.splits sum.splits)

lemma forward_cases:
  "forward T m x = forward_body T m x \<or> (\<exists>msg. forward T m x = ([], Inl (PrimitiveError msg)))"
  by (cases "contiguous T x") (simp_all add: forward_def prim_def raise_def ret_def)

lemma body_trace:
  "\<exists>l1 l2 l3 l4 q1 q2 q3 q4 p4 p3 p2 p1 n tail.
      filter decoder_event (fst (forward_body T m x))
        = take n (decoder_chain m l1 l2 l3 l4 q1 q2 q3 q4 p4 p3 p2 p1) @ tail
    \<and> (tail = [] \<or> (\<exists>msg. n < 8
           \<and> tail = [failed (decoder_chain m l1 l2 l3 l4 q1 q2 q3 q4 p4 p3 p2 p1 ! n) msg]))
    \<and> (filter decoder_event (fst (forward_body T m x)) \<noteq> []
         \<longrightarrow> snd (forward_features T m x) = Inr (Some l1, Some l2, Some l3, Some l4))
    \<and> ((\<exists>r. snd (forward_body T m x) = Inr r) \<longrightarrow> n = 8 \<and> tail = [])"
proof -
  have trivial: ?thesis
    if "filter decoder_event (fst (forward_body T m x)) = []"
      and "\<And>r. snd (forward_body T m x) \<noteq> Inr r"
    using that
    by (rule_tac x = x in exI, rule_tac x = x in exI, rule_tac x = x in exI, rule_tac x = x in exI,
        rule_tac x = x in exI, rule_tac x = x in exI, rule_tac x = x in exI, rule_tac x = x in exI,
        rule_tac x = x in exI, rule_tac x = x in exI, rule_tac x = x in exI, rule_tac x = x in exI,
        rule_tac x = 0 in exI, rule_tac x = "[]" in exI) simp
  show ?thesis
  proof (cases "snd (forward_features T m x)")
    case (Inl e)
    show ?thesis
      by (rule trivial) (simp_all add: forward_body_def fst_bnd snd_bnd Inl features_no_decoder_event)
  next
    case (Inr ls)
    from features_all_or_none[OF Inr] show ?thesis
    proof (elim disjE exE)
      assume "ls = (None, None, None, None)"
      then show ?thesis
        by (intro trivial)
           (simp_all add: forward_body_def fst_bnd snd_bnd Inr features_no_decoder_event
              decoder_unbound)
    next
      fix l1 l2 l3 l4
      assume ls: "ls = (Some l1, Some l2, Some l3, Some l4)"
      let ?D = "forward_decoder T m (Some l1, Some l2, Some l3, Some l4)"
      from decoder_trace[of T m l1 l2 l3 l4]
      obtain q1 q2 q3 q4 p4 p3 p2 p1 n tail where
        tr: "fst ?D = take n (decoder_chain m l1 l2 l3 l4 q1 q2 q3 q4 p4 p3 p2 p1) @ tail"
        and tl: "tail = [] \<or> (\<exists>msg. n < 8
           \<and> tail = [failed (decoder_chain m l1 l2 l3 l4 q1 q2 q3 q4 p4 p3 p2 p1 ! n) msg])"
        and ok: "(\<exists>ps. snd ?D = Inr ps) \<longrightarrow> n = 8 \<and> tail = []"
        by blast
      have flt: "filter decoder_event (fst (forward_body T m x)) = fst ?D"
        using decoder_only_decoder_events[of T m "(Some l1, Some l2, Some l3, Some l4)"]
        by (simp add: forward_body_def fst_bnd snd_bnd Inr ls features_no_decoder_event
              head_no_decoder_event split: sum.splits)
      have suc: "(\<exists>r. snd (forward_body T m x) = Inr r) \<longrightarrow> (\<exists>ps. snd ?D = Inr ps)"
        by (simp add: forward_body_def snd_bnd Inr ls split: sum.splits)
      show ?thesis
        using tr tl ok suc Inr ls unfolding flt
        by (rule_tac x = l1 in exI, rule_tac x = l2 in exI, rule_tac x = l3 in exI,
            rule_tac x = l4 in exI, rule_tac x = q1 in exI, rule_tac x = q2 in exI,
            rule_tac x = q3 in exI, rule_tac x = q4 in exI, rule_tac x = p4 in exI,
            rule_tac x = p3 in exI, rule_tac x = p2 in exI, rule_tac x = p1 in exI,
            rule_tac x = n in exI, rule_tac x = tail in exI) simp
    qed
  qed
qed


text \<open>
  Claim C2: in every forward pass, whatever the configuration, the calls of projections and
  fusion blocks are, in this order, a beginning of the chain of \<open>decoder_chain\<close>: the four
  projections applied to the four feature maps of the backbone, then \<^verbatim>\<open>refinenet4\<close> on the
  projected deepest feature alone, then \<^verbatim>\<open>refinenet3\<close>, \<^verbatim>\<open>refinenet2\<close> and \<^verbatim>\<open>refinenet1\<close>, each on the
  result of the block before it and the projected feature of its own level. All calls of
  that beginning have returned, except that the pass may end with one more call of the
  chain that raises. So a fusion block is only ever called after all four projections have
  returned, and a pass that returns has made the whole chain.
\<close>

theorem projections_before_fusion_chain:
  "\<exists>l1 l2 l3 l4 q1 q2 q3 q4 p4 p3 p2 p1 n tail.
      filter decoder_event (fst (forward T m x))
        = take n (decoder_chain m l1 l2 l3 l4 q1 q2 q3 q4 p4 p3 p2 p1) @ tail
    \<and> (tail = [] \<or> (\<exists>msg. n < 8
           \<and> tail = [failed (decoder_chain m l1 l2 l3 l4 q1 q2 q3 q4 p4 p3 p2 p1 ! n) msg]))
    \<and> (filter decoder_event (fst (forward T m x)) \<noteq> []
         \<longrightarrow> snd (forward_features T m x) = Inr (Some l1, Some l2, Some l3, Some l4))
    \<and> ((\<exists>r. snd (forward T m x) = Inr r) \<longrightarrow> n = 8 \<and> tail = [])"
  using forward_cases[of T m x]
proof (elim disjE exE)
  assume "forward T m x = forward_body T m x"
  then show ?thesis using body_trace[of T m x] by simp
next
  fix msg assume "forward T m x = ([], Inl (PrimitiveError msg))"
  then show ?thesis
    by (rule_tac x = x in exI, rule_tac x = x in exI, rule_tac x = x in exI, rule_tac x = x in exI,
        rule_tac x = x in exI, rule_tac x = x in exI, rule_tac x = x in exI, rule_tac x = x in exI,
        rule_tac x = x in exI, rule_tac x = x in exI, rule_tac x = x in exI, rule_tac x = x in exI,
        rule_tac x = 0 in exI, rule_tac x = "[]" in exI) simp
qed

text \<open>A pass that returns: the calls of its decoder are the whole chain, on the feature maps
  of the backbone.\<close>

theorem projections_before_fusion_chain_witness:
  "\<exists>l1 l2 l3 l4 q1 q2 q3 q4 p4 p3 p2 p1.
      filter decoder_event (fst (forward shape_sim sim_depth_net [2, 3, 64, 64]))
        = decoder_chain sim_depth_net l1 l2 l3 l4 q1 q2 q3 q4 p4 p3 p2 p1
    \<and> snd (forward_features shape_sim sim_depth_net [2, 3, 64, 64])
        = Inr (Some l1, Some l2, Some l3, Some l4)
    \<and> snd (forward shape_sim sim_depth_net [2, 3, 64, 64]) = Inr (Single [2, 64, 64])"
proof -
  from projections_before_fusion_chain[of shape_sim sim_depth_net "[2, 3, 64, 64]"]
  obtain l1 l2 l3 l4 q1 q2 q3 q4 p4 p3 p2 p1 n tail where
    tr: "filter decoder_event (fst (forward shape_sim sim_depth_net [2, 3, 64, 64]))
        = take n (decoder_chain sim_depth_net l1 l2 l3 l4 q1 q2 q3 q4 p4 p3 p2 p1) @ tail"
    and ft: "filter decoder_event (fst (forward shape_sim sim_depth_net [2, 3, 64, 64])) \<noteq> []
         \<longrightarrow> snd (forward_features shape_sim sim_depth_net [2, 3, 64, 64])
              = Inr (Some l1, Some l2, Some l3, Some l4)"
    and ok: "(\<exists>r. snd (forward shape_sim sim_depth_net [2, 3, 64, 64]) = Inr r)
         \<longrightarrow> n = 8 \<and> tail = []"
    by blast
  from ok sim_forward_depth have n: "n = 8" "tail = []" by simp_all
  have full: "filter decoder_event (fst (forward shape_sim sim_depth_net [2, 3, 64, 64]))
        = decoder_chain sim_depth_net l1 l2 l3 l4 q1 q2 q3 q4 p4 p3 p2 p1"
    unfolding tr n by (simp add: decoder_chain_def)
  then have "filter decoder_event (fst (forward shape_sim sim_depth_net [2, 3, 64, 64])) \<noteq> []"
    by (simp add: decoder_chain_def)
  with ft full sim_forward_depth show ?thesis by blast
qed

section \<open>The output in depth mode\<close>

lemma keeps_batch_trans: "keeps_batch a b \<Longrightarrow> keeps_batch b c \<Longrightarrow> keeps_batch a c"
  by (simp add: keeps_batch_def)

lemma keeps_batch_length: "keeps_batch a b \<Longrightarrow> length b = 4"
  by (simp add: keeps_batch_def)

lemma contract_opaque:
  assumes "shape_contract T" and "call T w name md (x # xs) = Inr y"
    and "length (tensor_shape T x) = 4" and "\<And>ls. md \<noteq> Sequential ls"
  shows "keeps_batch (tensor_shape T x) (tensor_shape T y)"
proof -
  from assms(1) have "\<forall>w name md x xs y. call T w name md (x # xs) = Inr y
          \<and> length (tensor_shape T x) = 4 \<and> (\<forall>ls. md \<noteq> Sequential ls)
          \<longrightarrow> keeps_batch (tensor_shape T x) (tensor_shape T y)"
    unfolding shape_contract_def by (elim conjE)
  from this[rule_format, of w name md x xs y] assms(2-4) show ?thesis by simp
qed

lemma contract_sequential:
  assumes "shape_contract T" and "call T w name (Sequential ls) [x] = Inr y"
    and "length (tensor_shape T x) = 4"
  shows "tensor_shape T y = fold shape_after ls (tensor_shape T x)"
proof -
  from assms(1) have "\<forall>w name ls x y. call T w name (Sequential ls) [x] = Inr y
          \<and> length (tensor_shape T x) = 4
          \<longrightarrow> tensor_shape T y = fold shape_after ls (tensor_shape T x)"
    unfolding shape_contract_def by (elim conjE)
  from this[rule_format, of w name ls x y] assms(2-3) show ?thesis by simp
qed

lemma contract_forward_vit:
  assumes "shape_contract T" and "forward_vit T w p x = Inr (l1, l2, l3, l4)"
    and "length (tensor_shape T x) = 4"
  shows "keeps_batch (tensor_shape T x) (tensor_shape T l4)"
proof -
  from assms(1) have "\<forall>w p x l1 l2 l3 l4. forward_vit T w p x = Inr (l1, l2, l3, l4)
          \<and> length (tensor_shape T x) = 4
          \<longrightarrow> keeps_batch (tensor_shape T x) (tensor_shape T l1)
            \<and> keeps_batch (tensor_shape T x) (tensor_shape T l2)
            \<and> keeps_batch (tensor_shape T x) (tensor_shape T l3)
            \<and> keeps_batch (tensor_shape T x) (tensor_shape T l4)"
    unfolding shape_contract_def by (elim conjE)
  from this[rule_format, of w p x l1 l2 l3 l4] assms(2-3) show ?thesis by simp
qed

lemma contract_scalar:
  assumes "shape_contract T"
  shows "tensor_mul T t v = Inr y \<Longrightarrow> tensor_shape T y = tensor_shape T t"
    and "tensor_add T t v = Inr y \<Longrightarrow> tensor_shape T y = tensor_shape T t"
proof -
  from assms have m: "\<forall>t v y. tensor_mul T t v = Inr y \<longrightarrow> tensor_shape T y = tensor_shape T t"
    unfolding shape_contract_def by (elim conjE)
  from assms have a: "\<forall>t v y. tensor_add T t v = Inr y \<longrightarrow> tensor_shape T y = tensor_shape T t"
    unfolding shape_contract_def by (elim conjE)
  show "tensor_mul T t v = Inr y \<Longrightarrow> tensor_shape T y = tensor_shape T t"
    using m[rule_format, of t v y] by simp
  show "tensor_add T t v = Inr y \<Longrightarrow> tensor_shape T y = tensor_shape T t"
    using a[rule_format, of t v y] by simp
qed

lemma contract_squeeze:
  assumes "shape_contract T" and "squeeze T t 1 = Inr y"
  shows "tensor_shape T y = squeeze_shape (tensor_shape T t) 1"
proof -
  from assms(1) have "\<forall>t d y. squeeze T t (int d) = Inr y
          \<longrightarrow> tensor_shape T y = squeeze_shape (tensor_shape T t) d"
    unfolding shape_contract_def by (elim conjE)
  from this[rule_format, of t 1 y] assms(2) show ?thesis by simp
qed

lemma features_keep_batch:
  assumes c: "shape_contract T" and len: "length (tensor_shape T x) = 4"
    and f: "forward_features T m x = (tf, Inr (Some l1, Some l2, Some l3, Some l4))"
  shows "keeps_batch (tensor_shape T x) (tensor_shape T l4)"
proof (cases "model (pretrained m)")
  case (Some vm)
  with f have "forward_vit T (weights m) (pretrained m) x = Inr (l1, l2, l3, l4)"
    by (auto simp add: forward_features_def Let_def run_Inr split: option.splits)
  from contract_forward_vit[OF c this len] show ?thesis .
next
  case None
  with f obtain h1 h2 h3 h4 where
    c1: "call T (weights m) ''pretrained.layer1'' (Pretrained_layer (pretrained m) h1) [x] = Inr l1"
    and c2: "call T (weights m) ''pretrained.layer2'' (Pretrained_layer (pretrained m) h2) [l1] = Inr l2"
    and c3: "call T (weights m) ''pretrained.layer3'' (Pretrained_layer (pretrained m) h3) [l2] = Inr l3"
    and c4: "call T (weights m) ''pretrained.layer4'' (Pretrained_layer (pretrained m) h4) [l3] = Inr l4"
    by (auto simp add: forward_features_def Let_def run_Inr getattr_def split: option.splits)
  have k1: "keeps_batch (tensor_shape T x) (tensor_shape T l1)"
    by (rule contract_opaque[OF c c1 len]) simp
  have k2: "keeps_batch (tensor_shape T l1) (tensor_shape T l2)"
    by (rule contract_opaque[OF c c2 keeps_batch_length[OF k1]]) simp
  have k3: "keeps_batch (tensor_shape T l2) (tensor_shape T l3)"
    by (rule contract_opaque[OF c c3 keeps_batch_length[OF k2]]) simp
  have k4: "keeps_batch (tensor_shape T l3) (tensor_shape T l4)"
    by (rule contract_opaque[OF c c4 keeps_batch_length[OF k3]]) simp
  from k1 k2 k3 k4 show ?thesis by (blast intro: keeps_batch_trans)
qed

lemma forward_decoder_calls:
  assumes "forward_decoder T m (Some l1, Some l2, Some l3, Some l4) = (td, Inr (p1, p2))"
  shows "\<exists>q3 q2 q1 q4 p4 p3.
      call T (weights m) ''scratch.layer4_rn'' (Scratch_layer (layer4_rn (scratch m))) [l4] = Inr q4
    \<and> call T (weights m) ''scratch.refinenet4'' (FeatureFusionBlock_custom (refinenet4 (scratch m)))
         [q4] = Inr p4
    \<and> call T (weights m) ''scratch.refinenet3'' (FeatureFusionBlock_custom (refinenet3 (scratch m)))
         [p4, q3] = Inr p3
    \<and> call T (weights m) ''scratch.refinenet2'' (FeatureFusionBlock_custom (refinenet2 (scratch m)))
         [p3, q2] = Inr p2
    \<and> call T (weights m) ''scratch.refinenet1'' (FeatureFusionBlock_custom (refinenet1 (scratch m)))
         [p2, q1] = Inr p1"
  using assms
  by (clarsimp simp add: forward_decoder_def Let_def run_Inr local_var_def) blast

lemma decoder_keeps_batch:
  assumes c: "shape_contract T" and len: "length (tensor_shape T l4) = 4"
    and d: "forward_decoder T m (Some l1, Some l2, Some l3, Some l4) = (td, Inr (p1, p2))"
  shows "keeps_batch (tensor_shape T l4) (tensor_shape T p1)"
proof -
  from forward_decoder_calls[OF d] obtain q3 q2 q1 q4 p4 p3 where
    c4: "call T (weights m) ''scratch.layer4_rn'' (Scratch_layer (layer4_rn (scratch m))) [l4] = Inr q4"
    and f4: "call T (weights m) ''scratch.refinenet4'' (FeatureFusionBlock_custom (refinenet4 (scratch m)))
         [q4] = Inr p4"
    and f3: "call T (weights m) ''scratch.refinenet3'' (FeatureFusionBlock_custom (refinenet3 (scratch m)))
         [p4, q3] = Inr p3"
    and f2: "call T (weights m) ''scratch.refinenet2'' (FeatureFusionBlock_custom (refinenet2 (scratch m)))
         [p3, q2] = Inr p2"
    and f1: "call T (weights m) ''scratch.refinenet1'' (FeatureFusionBlock_custom (refinenet1 (scratch m)))
         [p2, q1] = Inr p1"
    by blast
  have k0: "keeps_batch (tensor_shape T l4) (tensor_shape T q4)"
    by (rule contract_opaque[OF c c4 len]) simp
  have k4: "keeps_batch (tensor_shape T q4) (tensor_shape T p4)"
    by (rule contract_opaque[OF c f4 keeps_batch_length[OF k0]]) simp
  have k3: "keeps_batch (tensor_shape T p4) (tensor_shape T p3)"
    by (rule contract_opaque[OF c f3 keeps_batch_length[OF k4]]) simp
  have k2: "keeps_batch (tensor_shape T p3) (tensor_shape T p2)"
    by (rule contract_opaque[OF c f2 keeps_batch_length[OF k3]]) simp
  have k1: "keeps_batch (tensor_shape T p2) (tensor_shape T p1)"
    by (rule contract_opaque[OF c f1 keeps_batch_length[OF k2]]) simp
  from k0 k4 k3 k2 k1 show ?thesis by (blast intro: keeps_batch_trans)
qed

lemma conv_extent_same [simp]:
  "conv_extent (Conv2d ci co 3 1 1 g b) h = h"
  "conv_extent (Conv2d ci co 1 1 0 g b) h = h"
  by (simp_all add: conv_extent_def)

lemma select_activation_Inr:
  assumes "select_activation b = Inr act"
  shows "act = LeakyReLU (1 / 10) \<or> act = ReLU False \<or> act = Identity"
  using assms by (auto simp add: select_activation_def split: sum.splits if_splits)

lemma depth_head_shape:
  assumes "make_output_conv a b act = Inr head" and "py_eq (arg_monodepth a) (PyBool True)"
    and "act = LeakyReLU (1 / 10) \<or> act = ReLU False \<or> act = Identity"
  shows "fold shape_after head [n, c, h, w] = [n, 1, h * 2, w * 2]"
  using assms by (auto simp add: make_output_conv_def Let_def)

lemma init_depth_head:
  assumes "MidasNet_init T w0 a = Inr m" and "py_eq (arg_monodepth a) (PyBool True)"
  shows "auxlayer m = None" and "py_eq (monodepth m) (PyBool True)"
    and "fold shape_after (output_conv (scratch m)) [n, c, h, w] = [n, 1, h * 2, w * 2]"
proof -
  from init_Inr[OF assms(1)] obtain pre sb act head wts ms where
    act: "select_activation (stored_blocks a) = Inr act"
    and head: "make_output_conv a (stored_blocks a) act = Inr head"
    and m: "auxlayer m = None" "monodepth m = arg_monodepth a"
      "scratch m = make_scratch a sb act (use_batch_norm (arg_blocks a)) head"
    by (elim exE conjE) simp
  show "auxlayer m = None" by fact
  show "py_eq (monodepth m) (PyBool True)" using m(2) assms(2) by simp
  have "output_conv (scratch m) = head" by (simp add: m(3) make_scratch_def)
  with depth_head_shape[OF head assms(2) select_activation_Inr[OF act]]
  show "fold shape_after (output_conv (scratch m)) [n, c, h, w] = [n, 1, h * 2, w * 2]"
    by simp
qed

lemma keeps_batch_shape:
  assumes "keeps_batch [n, c, h, w] shp"
  shows "\<exists>c' h' w'. shp = [n, c', h', w']"
proof -
  from assms have "length shp = 4" "hd shp = n" by (simp_all add: keeps_batch_def)
  then show ?thesis
    by (cases shp; cases "tl shp"; cases "tl (tl shp)"; cases "tl (tl (tl shp))") auto
qed


lemma sim_layer_shape:
  assumes "sim_layer l shp = Inr shp'" and "length shp = 4"
  shows "shp' = shape_after l shp \<and> length shp' = 4"
proof -
  from assms(2) obtain n c h w where shp: "shp = [n, c, h, w]"
    by (cases shp; cases "tl shp"; cases "tl (tl shp)"; cases "tl (tl (tl shp))") auto
  from assms(1) show ?thesis
    unfolding shp by (cases l) (auto simp add: sim_layer_def split: if_splits)
qed

lemma sim_sequential_shape:
  "sim_sequential ls shp = Inr shp' \<Longrightarrow> length shp = 4 \<Longrightarrow> shp' = fold shape_after ls shp"
proof (induction ls arbitrary: shp)
  case Nil
  then show ?case by simp
next
  case (Cons l ls)
  from Cons.prems(1) obtain s where l: "sim_layer l shp = Inr s" and r: "sim_sequential ls s = Inr shp'"
    by (auto split: sum.splits)
  from sim_layer_shape[OF l Cons.prems(2)] have s: "s = shape_after l shp" "length s = 4"
    by blast+
  from Cons.IH[OF r s(2)] s(1) show ?case by simp
qed

lemma shape_sim_contract: "shape_contract shape_sim"
  unfolding shape_contract_def
proof (intro conjI allI impI)
  fix w name ls and x y :: "nat list"
  assume "call shape_sim w name (Sequential ls) [x] = Inr y \<and> length (tensor_shape shape_sim x) = 4"
  then show "tensor_shape shape_sim y = fold shape_after ls (tensor_shape shape_sim x)"
    by (simp add: shape_sim_def sim_call_def sim_sequential_shape)
next
  fix w name and md :: "sim_module nn_module" and x y :: "nat list" and xs
  assume a: "call shape_sim w name md (x # xs) = Inr y \<and> length (tensor_shape shape_sim x) = 4
      \<and> (\<forall>ls. md \<noteq> Sequential ls)"
  then obtain n c h w' where x: "x = [n, c, h, w']"
    by (cases x; cases "tl x"; cases "tl (tl x)"; cases "tl (tl (tl x))")
       (auto simp add: shape_sim_def)
  from a show "keeps_batch (tensor_shape shape_sim x) (tensor_shape shape_sim y)"
    unfolding x
    by (cases md)
       (auto simp add: shape_sim_def sim_call_def sim_opaque_def sim_fusion_def keeps_batch_def
          split: list.splits if_splits)
next
  fix w p and x l1 l2 l3 l4 :: "nat list"
  assume a: "forward_vit shape_sim w p x = Inr (l1, l2, l3, l4)
      \<and> length (tensor_shape shape_sim x) = 4"
  then obtain n c h w' where x: "x = [n, c, h, w']"
    by (cases x; cases "tl x"; cases "tl (tl x)"; cases "tl (tl (tl x))")
       (auto simp add: shape_sim_def)
  from a have "keeps_batch x l1 \<and> keeps_batch x l2 \<and> keeps_batch x l3 \<and> keeps_batch x l4"
    unfolding x
    by (auto simp add: shape_sim_def sim_forward_vit_def keeps_batch_def split: if_splits)
  then show "keeps_batch (tensor_shape shape_sim x) (tensor_shape shape_sim l1)"
    "keeps_batch (tensor_shape shape_sim x) (tensor_shape shape_sim l2)"
    "keeps_batch (tensor_shape shape_sim x) (tensor_shape shape_sim l3)"
    "keeps_batch (tensor_shape shape_sim x) (tensor_shape shape_sim l4)"
    by (simp_all add: shape_sim_def)
next
  fix t y :: "nat list" and v
  assume "tensor_mul shape_sim t v = Inr y"
  then show "tensor_shape shape_sim y = tensor_shape shape_sim t"
    by (auto simp add: shape_sim_def sim_scalar_op_def split: if_splits)
next
  fix t y :: "nat list" and v
  assume "tensor_add shape_sim t v = Inr y"
  then show "tensor_shape shape_sim y = tensor_shape shape_sim t"
    by (auto simp add: shape_sim_def sim_scalar_op_def split: if_splits)
next
  fix t y :: "nat list" and d
  assume "squeeze shape_sim t (int d) = Inr y"
  then show "tensor_shape shape_sim y = squeeze_shape (tensor_shape shape_sim t) d"
    by (auto simp add: shape_sim_def sim_squeeze_def split: if_splits)
qed

text \<open>
  Claim C1: in depth mode, for an object the constructor has returned, on collaborators that
  keep the shape contract and an input batch of shape \<open>(batch, 3, H, W)\<close>, a forward pass
  that returns gives a single tensor: the result of the output head, which has the single
  channel \<open>(batch, 1, H', W')\<close>, multiplied by \<^verbatim>\<open>self.scale\<close>, with \<^verbatim>\<open>self.shift\<close> added, and
  squeezed along the channel axis to \<open>(batch, H', W')\<close>.
\<close>

theorem depth_mode_output:
  assumes init: "MidasNet_init T w0 a = Inr m"
    and depth: "py_eq (arg_monodepth a) (PyBool True)"
    and contract: "shape_contract T"
    and shape: "tensor_shape T x = [batch, 3, H, W]"
    and run: "forward T m x = (tr, Inr r)"
  shows "\<exists>path_1 out0 scaled out sq H' W'.
      Call ''scratch.output_conv'' (Sequential (output_conv (scratch m))) [path_1] (Inr out0)
        \<in> set tr
    \<and> tensor_mul T out0 (scale m) = Inr scaled
    \<and> tensor_add T scaled (shift m) = Inr out
    \<and> squeeze T out 1 = Inr sq
    \<and> r = Single sq
    \<and> tensor_shape T out0 = [batch, 1, H', W']
    \<and> tensor_shape T sq = [batch, H', W']"
proof -
  note m = init_depth_head[OF init depth]
  from forward_body_Inr[OF forward_Inr[OF run]] obtain tf ls td ps th where
    f: "forward_features T m x = (tf, Inr ls)"
    and d: "forward_decoder T m ls = (td, Inr ps)"
    and h: "forward_head T m ps = (th, Inr r)"
    and tr: "tr = tf @ td @ th"
    by blast
  from forward_decoder_Inr[OF d] obtain l1 l2 l3 l4 p1 p2 where
    ls: "ls = (Some l1, Some l2, Some l3, Some l4)" and ps: "ps = (p1, p2)"
    by blast
  have len: "length (tensor_shape T x) = 4" by (simp add: shape)
  have k1: "keeps_batch (tensor_shape T x) (tensor_shape T l4)"
    by (rule features_keep_batch[OF contract len f[unfolded ls]])
  have k2: "keeps_batch (tensor_shape T l4) (tensor_shape T p1)"
    by (rule decoder_keeps_batch[OF contract keeps_batch_length[OF k1] d[unfolded ls ps]])
  from keeps_batch_trans[OF k1 k2] obtain c h w where
    p1: "tensor_shape T p1 = [batch, c, h, w]"
    unfolding shape by (blast dest: keeps_batch_shape)
  from forward_head_plain[OF h[unfolded ps] m(1)] m(2) obtain out0 scaled out sq where
    oc: "call T (weights m) ''scratch.output_conv'' (Sequential (output_conv (scratch m))) [p1]
           = Inr out0"
    and mul: "tensor_mul T out0 (scale m) = Inr scaled"
    and add: "tensor_add T scaled (shift m) = Inr out"
    and th: "th = [Call ''scratch.output_conv'' (Sequential (output_conv (scratch m))) [p1]
                    (Inr out0)]"
    and sq: "squeeze T out 1 = Inr sq" "r = Single sq"
    by auto
  have s0: "tensor_shape T out0 = [batch, 1, h * 2, w * 2]"
    using contract_sequential[OF contract oc] p1 m(3) by simp
  have "tensor_shape T out = [batch, 1, h * 2, w * 2]"
    using contract_scalar[OF contract] mul add s0 by simp
  with contract_squeeze[OF contract sq(1)]
  have s1: "tensor_shape T sq = [batch, h * 2, w * 2]"
    by (simp add: squeeze_shape_def)
  show ?thesis
    using mul add sq s0 s1 tr th
    by (rule_tac x = p1 in exI, rule_tac x = out0 in exI, rule_tac x = scaled in exI,
        rule_tac x = out in exI, rule_tac x = sq in exI, rule_tac x = "h * 2" in exI,
        rule_tac x = "w * 2" in exI) simp
qed

text \<open>The pass of the default object on a batch of two images returns a tensor of shape
  \<open>(2, 64, 64)\<close>.\<close>

theorem depth_mode_output_witness:
  "MidasNet_init shape_sim () default_args = Inr sim_depth_net
   \<and> py_eq (arg_monodepth default_args) (PyBool True)
   \<and> shape_contract shape_sim
   \<and> tensor_shape shape_sim [2, 3, 64, 64] = [2, 3, 64, 64]
   \<and> snd (forward shape_sim sim_depth_net [2, 3, 64, 64]) = Inr (Single [2, 64, 64])
   \<and> (\<exists>path_1 out0 scaled out sq H' W'.
        Call ''scratch.output_conv'' (Sequential (output_conv (scratch sim_depth_net)))
            [path_1] (Inr out0)
          \<in> set (fst (forward shape_sim sim_depth_net [2, 3, 64, 64]))
      \<and> tensor_mul shape_sim out0 (scale sim_depth_net) = Inr scaled
      \<and> tensor_add shape_sim scaled (shift sim_depth_net) = Inr out
      \<and> squeeze shape_sim out 1 = Inr sq
      \<and> Single [2, 64, 64] = Single sq
      \<and> tensor_shape shape_sim out0 = [2, 1, H', W']
      \<and> tensor_shape shape_sim sq = [2, H', W'])"
proof -
  have depth: "py_eq (arg_monodepth default_args) (PyBool True)"
    by (simp add: default_args_def)
  have shape: "tensor_shape shape_sim [2, 3, 64, 64] = [2, 3, 64, 64]"
    by (simp add: shape_sim_def)
  have run: "forward shape_sim sim_depth_net [2, 3, 64, 64]
      = (fst (forward shape_sim sim_depth_net [2, 3, 64, 64]), Inr (Single [2, 64, 64]))"
    by (simp add: prod_eq_iff sim_forward_depth)
  from depth_mode_output[OF init_default depth shape_sim_contract shape run]
    init_default depth shape_sim_contract shape sim_forward_depth
  show ?thesis by blast
qed

end
